theory Spec2Isabelle
  imports Complex_Main
begin

unbundle bit_operations_syntax

section \<open>Numeric helpers\<close>

text \<open>
  Python integers are unbounded, so they are \<open>int\<close>. Python floats are modelled as exact
  rationals: every float expression of the engine is a short product or sum of small
  decimal constants and integer-valued quantities, and the engine only ever compares the
  result or rounds it to an integer.
\<close>

datatype py_error = IndexError

definition bind_err :: "py_error + 'a \<Rightarrow> ('a \<Rightarrow> py_error + 'b) \<Rightarrow> py_error + 'b" where
  "bind_err m f = (case m of Inl e \<Rightarrow> Inl e | Inr x \<Rightarrow> f x)"

definition clamp :: "rat \<Rightarrow> rat \<Rightarrow> rat \<Rightarrow> rat" where
  "clamp v lo hi = max lo (min hi v)"

definition iclamp :: "int \<Rightarrow> int \<Rightarrow> int \<Rightarrow> int" where
  "iclamp v lo hi = max lo (min hi v)"

text \<open>Python 3 \<open>round(x)\<close> on a float: to the nearest integer, a tie to the even one.\<close>

definition py_round :: "rat \<Rightarrow> int" where
  "py_round x =
     (let f = \<lfloor>x\<rfloor>; d = x - of_int f
      in if d < 1 / 2 then f
         else if 1 / 2 < d then f + 1
         else if even f then f else f + 1)"

text \<open>Python list indexing: a negative index counts from the end, out of range raises.\<close>

definition py_index :: "'a list \<Rightarrow> int \<Rightarrow> py_error + 'a" where
  "py_index xs i =
     (if 0 \<le> i \<and> i < int (length xs) then Inr (xs ! nat i)
      else if i < 0 \<and> - int (length xs) \<le> i then Inr (xs ! nat (int (length xs) + i))
      else Inl IndexError)"

text \<open>
  \<open>random.randint(lo, hi)\<close>: the model receives the raw entropy \<open>n\<close> of each draw as an
  argument and maps it into the inclusive range the source asks for.
\<close>

definition randint :: "int \<Rightarrow> int \<Rightarrow> nat \<Rightarrow> int" where
  "randint lo hi n = lo + int n mod (hi - lo + 1)"

section \<open>Range gates\<close>

datatype RangeGate = HANDS | CLOSE | MID | FAR | VERYFAR

definition RANGE_ORDER :: "RangeGate list" where
  "RANGE_ORDER = [HANDS, CLOSE, MID, FAR, VERYFAR]"

definition rg_to_loadout_range :: "RangeGate \<Rightarrow> string" where
  "rg_to_loadout_range rg =
     (if rg = HANDS \<or> rg = CLOSE then ''Close''
      else if rg = MID then ''Mid''
      else ''Far'')"

section \<open>Combatants and the duel state\<close>

record Combatant =
  user_id :: int
  name :: string
  hp :: int
  is_ai :: bool
  ai_medkit :: bool

text \<open>
  A log line is the f-string that produced it together with the values interpolated into
  it. \<open>push\<close> prefixes the line with an animation frame, \<open>add_raw\<close> does not.
\<close>

datatype log_text =
    GrapplingEngaged
  | GrapplingBroken
  | ChokeReleasedByDistance
  | PassesOut string
  | StaggeredLosesTurn string
  | GrenadeDetonates string int int
  | NoViableWeaponAt string
  | NoViableWeapon string
  | TooFarToSwing string
  | SwingsAndHits string string int int
  | HitsWith string string string int int
  | SwingsAndMisses string
  | FiresAndMisses string
  | Advances string int
  | Retreats string int
  | FumblesGrenade string
  | LobsGrenade string string
  | GrenadeMisses string
  | SecuresChoke string string
  | ChokeFails string
  | Wrestles string string int bool
  | Punches string string int
  | BreaksFree string
  | BreakFreeFails string
  | TightensChoke string
  | ReleasesChoke string
  | OpponentUnconscious
  | StrugglesForAir string
  | BothFall
  | Wins string
  | Robot log_text

datatype log_line = Pushed log_text | Raw log_text

record grenade =
  from_id :: int
  damage :: int

record hit_info =
  by_id :: int
  hit_type :: string
  weapon :: string

datatype cover_token = COVER_DOOR | COVER_BARRICADE | COVER_BARREL

text \<open>
  The fields of \<open>DuelState\<close> that the engine reads or writes. \<open>finisher\<close>, \<open>cover_line\<close>
  and \<open>trails\<close> are the attributes the action layer attaches to the state object. The
  wall-clock stamp \<open>last_update\<close> and the display-only fields are left out.
\<close>

record DuelState =
  guild_id :: int
  channel_id :: int
  a :: Combatant
  b :: Combatant
  range_idx :: int
  vis_segments :: int
  pos :: "int \<rightharpoonup> int"
  last_mover :: "int option"
  turn_id :: int
  log_lines :: "log_line list"
  full_log_lines :: "log_line list"
  active :: bool
  round_no :: int
  grappling :: bool
  positioning :: "int \<rightharpoonup> int"
  choking :: "(int \<times> int) option"
  breath :: "int \<rightharpoonup> int"
  bloodflow :: "int \<rightharpoonup> int"
  unconscious :: "int set"
  clearing_stacks :: "int \<rightharpoonup> int"
  clearing_expiries :: "int \<rightharpoonup> int list"
  turn_tick :: int
  hidden :: "int set"
  in_cover :: "int set"
  cover_pct :: "int \<rightharpoonup> int"
  grenades_pending :: "int \<rightharpoonup> grenade"
  skip_turn_for :: "int set"
  last_hit :: "int \<rightharpoonup> hit_info"
  grapple_just_started :: bool
  grapple_starter_id :: "int option"
  grapple_flip :: int
  finisher :: "(int \<times> int) option"
  cover_line :: "cover_token option list"
  trails :: "int \<rightharpoonup> int set"

definition rngate :: "DuelState \<Rightarrow> py_error + RangeGate" where
  "rngate s = py_index RANGE_ORDER (range_idx s)"

definition current :: "DuelState \<Rightarrow> Combatant" where
  "current s = (if turn_id s = 0 then a s else b s)"

definition other :: "DuelState \<Rightarrow> Combatant" where
  "other s = (if turn_id s = 0 then b s else a s)"

definition is_draw :: "DuelState \<Rightarrow> bool" where
  "is_draw s =
     (let a_dead = (hp (a s) \<le> 0 \<or> user_id (a s) \<in> unconscious s);
          b_dead = (hp (b s) \<le> 0 \<or> user_id (b s) \<in> unconscious s)
      in a_dead \<and> b_dead)"

text \<open>\<open>winner\<close> returns one of the two combatant objects of the state, or \<open>None\<close>.\<close>

datatype side = SideA | SideB

definition winner :: "DuelState \<Rightarrow> side option" where
  "winner s =
     (if hp (a s) \<le> 0 \<and> 0 < hp (b s) then Some SideB
      else if hp (b s) \<le> 0 \<and> 0 < hp (a s) then Some SideA
      else if user_id (a s) \<in> unconscious s \<and> user_id (b s) \<notin> unconscious s then Some SideB
      else if user_id (b s) \<in> unconscious s \<and> user_id (a s) \<notin> unconscious s then Some SideA
      else None)"

definition fighter :: "DuelState \<Rightarrow> side \<Rightarrow> Combatant" where
  "fighter s sd = (case sd of SideA \<Rightarrow> a s | SideB \<Rightarrow> b s)"

definition last6 :: "'a list \<Rightarrow> 'a list" where
  "last6 xs = (if 6 < length xs then drop (length xs - 6) xs else xs)"

definition push :: "log_text \<Rightarrow> DuelState \<Rightarrow> DuelState" where
  "push line s =
     s\<lparr>full_log_lines := full_log_lines s @ [Pushed line],
       log_lines := last6 (log_lines s @ [Pushed line])\<rparr>"

definition add_raw :: "log_text \<Rightarrow> DuelState \<Rightarrow> DuelState" where
  "add_raw line s =
     s\<lparr>full_log_lines := full_log_lines s @ [Raw line],
       log_lines := last6 (log_lines s @ [Raw line])\<rparr>"

section \<open>Armor\<close>

record player_stats =
  combat :: rat
  fitness :: rat
  armor :: rat

definition ARMOR_FACTORS :: "string \<rightharpoonup> rat" where
  "ARMOR_FACTORS =
     [''melee'' \<mapsto> 60 / 100, ''small_ranged'' \<mapsto> 80 / 100, ''large_ranged'' \<mapsto> 80 / 100,
      ''ranged'' \<mapsto> 80 / 100, ''grenade'' \<mapsto> 50 / 100, ''none'' \<mapsto> 0]"

definition apply_armor_reduction :: "player_stats \<Rightarrow> int \<Rightarrow> string \<Rightarrow> int \<times> int" where
  "apply_armor_reduction dfn dmg kind =
     (let factor = (case ARMOR_FACTORS kind of None \<Rightarrow> 70 / 100 | Some f \<Rightarrow> f);
          raw = py_round (armor dfn * factor);
          mit = iclamp raw 0 (max 0 (dmg - 1))
      in (dmg - mit, mit))"

definition record_hit :: "int \<Rightarrow> int \<Rightarrow> string \<Rightarrow> string \<Rightarrow> DuelState \<Rightarrow> DuelState" where
  "record_hit attacker_id target_id kind wpn s =
     s\<lparr>last_hit := (last_hit s)(target_id \<mapsto> \<lparr>by_id = attacker_id, hit_type = kind, weapon = wpn\<rparr>)\<rparr>"

section \<open>Positions and movement\<close>

definition target_vis_gap :: "DuelState \<Rightarrow> int" where
  "target_vis_gap s =
     (let idx_ratio = of_int (range_idx s) / of_int (int (length RANGE_ORDER) - 1)
      in iclamp (py_round (idx_ratio * of_int (vis_segments s - 1))) 3 (vis_segments s - 3))"

definition check_grapple_transition ::
  "RangeGate \<Rightarrow> RangeGate \<Rightarrow> int option \<Rightarrow> DuelState \<Rightarrow> DuelState" where
  "check_grapple_transition prev now actor_id s =
     (let was = grappling s;
          s1 = (if was \<and> now \<noteq> HANDS
                then (add_raw GrapplingBroken s)
                       \<lparr>grappling := False, grapple_just_started := False,
                        grapple_starter_id := None\<rparr>
                else s)
      in if \<not> grappling s1 \<and> choking s1 \<noteq> None
         then (add_raw ChokeReleasedByDistance s1)
                \<lparr>choking := None, breath := Map.empty, bloodflow := Map.empty\<rparr>
         else s1)"

definition sync_visual_positions :: "int option \<Rightarrow> DuelState \<Rightarrow> DuelState" where
  "sync_visual_positions mover_id s =
     (if grappling s then s
      else
        let a_id = user_id (a s); b_id = user_id (b s);
            target_gap = target_vis_gap s;
            pos_a0 = (case pos s a_id of None \<Rightarrow> 1 | Some p \<Rightarrow> p);
            pos_b = (case pos s b_id of None \<Rightarrow> vis_segments s - 2 | Some p \<Rightarrow> p);
            pos_a = (if pos_b \<le> pos_a0 then max 0 (pos_b - 2) else pos_a0);
            cur_gap = \<bar>pos_b - pos_a\<bar>
        in if cur_gap = target_gap then s\<lparr>pos := (pos s)(a_id \<mapsto> pos_a, b_id \<mapsto> pos_b)\<rparr>
           else
             let (pos_a1, pos_b1) =
                   (if mover_id = Some a_id
                    then (iclamp (pos_b - target_gap) 0 (vis_segments s - 1), pos_b)
                    else if mover_id = Some b_id
                    then (pos_a, iclamp (pos_a + target_gap) 0 (vis_segments s - 1))
                    else
                      let left = max 0 ((vis_segments s - target_gap) div 2 - 1)
                      in (left, iclamp (left + target_gap) 0 (vis_segments s - 1)));
                 pos_a2 = (if pos_b1 \<le> pos_a1 then max 0 (pos_b1 - 1) else pos_a1)
             in s\<lparr>pos := (pos s)(a_id \<mapsto> pos_a2, b_id \<mapsto> pos_b1)\<rparr>)"

definition step_range :: "int \<Rightarrow> int option \<Rightarrow> DuelState \<Rightarrow> py_error + DuelState" where
  "step_range delta actor_id s =
     bind_err (rngate s) (\<lambda>prev.
       let s1 = s\<lparr>range_idx := iclamp (range_idx s + delta) 0 (int (length RANGE_ORDER) - 1)\<rparr>;
           s2 = s1\<lparr>last_mover := actor_id\<rparr>;
           s3 = sync_visual_positions actor_id s2
       in bind_err (rngate s3) (\<lambda>now. Inr (check_grapple_transition prev now actor_id s3)))"

text \<open>
  \<open>micro_move\<close> in two parts: \<open>micro_move_coords\<close> is the arithmetic on the two coordinates
  (from reading \<open>pos_a\<close> and \<open>pos_b\<close> down to the assignment of \<open>me_pos\<close> to the actor's
  coordinate), \<open>micro_move\<close> the guards around it, the write to \<open>pos\<close>, the gate index
  recomputed from the gap and the transition check.
\<close>

definition micro_move_coords :: "int \<Rightarrow> int \<Rightarrow> DuelState \<Rightarrow> int \<times> int" where
  "micro_move_coords actor_id toward_steps s =
     (let a_id = user_id (a s); b_id = user_id (b s);
          pos_a = (case pos s a_id of None \<Rightarrow> 1 | Some p \<Rightarrow> p);
          pos_b = (case pos s b_id of None \<Rightarrow> vis_segments s - 2 | Some p \<Rightarrow> p);
          me_left = ((pos_a < pos_b \<and> actor_id = a_id) \<or> (pos_b < pos_a \<and> actor_id = b_id));
          me_pos = (if actor_id = a_id then pos_a else pos_b);
          them_pos = (if actor_id = a_id then pos_b else pos_a);
          me_pos1 =
            (if 0 \<le> toward_steps
             then (if me_left then min (them_pos - 1) (me_pos + toward_steps)
                   else max (them_pos + 1) (me_pos - toward_steps))
             else
               let steps = \<bar>toward_steps\<bar>
               in (if me_left then max 0 (me_pos - steps)
                   else min (vis_segments s - 1) (me_pos + steps)));
          me_pos2 = (if me_left then min me_pos1 (them_pos - 1)
                     else max me_pos1 (them_pos + 1))
      in if actor_id = a_id then (me_pos2, pos_b) else (pos_a, me_pos2))"

definition micro_move :: "int \<Rightarrow> int \<Rightarrow> DuelState \<Rightarrow> py_error + DuelState" where
  "micro_move actor_id toward_steps s =
     (if grappling s then Inr s
      else
        let a_id = user_id (a s); b_id = user_id (b s)
        in if actor_id \<noteq> a_id \<and> actor_id \<noteq> b_id then Inr s
           else
             let (pos_a, pos_b) = micro_move_coords actor_id toward_steps s;
                 s1 = s\<lparr>pos := (pos s)(a_id \<mapsto> pos_a, b_id \<mapsto> pos_b)\<rparr>;
                 gap = \<bar>pos_b - pos_a\<bar>;
                 ratio = of_int gap / of_int (max 1 (vis_segments s - 1));
                 new_idx = iclamp (py_round (ratio * of_int (int (length RANGE_ORDER) - 1))) 0
                             (int (length RANGE_ORDER) - 1)
             in bind_err (rngate s1) (\<lambda>prev.
                  let s2 = s1\<lparr>range_idx := new_idx\<rparr>
                  in bind_err (rngate s2) (\<lambda>now.
                       Inr (check_grapple_transition prev now (Some actor_id) s2))))"

section \<open>Grapple\<close>

definition can_grapple :: "DuelState \<Rightarrow> py_error + bool" where
  "can_grapple s =
     (if grappling s then Inr False else bind_err (rngate s) (\<lambda>g. Inr (g = HANDS)))"

definition begin_grapple :: "int \<Rightarrow> DuelState \<Rightarrow> py_error + DuelState" where
  "begin_grapple starter_id s =
     bind_err (can_grapple s) (\<lambda>ok.
       if \<not> ok then Inr s
       else
         let d = 2;
             left = max 0 ((vis_segments s - d) div 2 - 1);
             s1 = s\<lparr>grappling := True, grapple_just_started := True,
                    grapple_starter_id := Some starter_id, grapple_flip := 0\<rparr>;
             s2 = s1\<lparr>pos := (pos s1)(user_id (a s1) \<mapsto> left)\<rparr>;
             s3 = s2\<lparr>pos := (pos s2)(user_id (b s2) \<mapsto> min (vis_segments s2 - 1) (left + d))\<rparr>;
             s4 = s3\<lparr>turn_id := (if starter_id = user_id (a s3) then 0 else 1)\<rparr>
         in Inr (add_raw GrapplingEngaged s4))"

section \<open>End of turn and status ticks\<close>

definition expire_one :: "int \<Rightarrow> DuelState \<Rightarrow> DuelState" where
  "expire_one uid s =
     (let exps = (case clearing_expiries s uid of None \<Rightarrow> [] | Some e \<Rightarrow> e)
      in if exps = [] then s
         else
           let kept = filter (\<lambda>t. turn_tick s < t) exps;
               removed = int (length exps) - int (length kept);
               s1 = (if 0 < removed
                     then s\<lparr>clearing_stacks := (clearing_stacks s)
                              (uid \<mapsto> max 0 ((case clearing_stacks s uid of None \<Rightarrow> 0 | Some n \<Rightarrow> n)
                                              - removed))\<rparr>
                     else s)
           in if kept \<noteq> [] then s1\<lparr>clearing_expiries := (clearing_expiries s1)(uid \<mapsto> kept)\<rparr>
              else
                let s2 = s1\<lparr>clearing_expiries := (clearing_expiries s1)(uid := None)\<rparr>
                in if (case clearing_stacks s2 uid of None \<Rightarrow> 0 | Some n \<Rightarrow> n) = 0
                   then s2\<lparr>clearing_stacks := (clearing_stacks s2)(uid := None)\<rparr>
                   else s2)"

definition expire_clearing :: "DuelState \<Rightarrow> DuelState" where
  "expire_clearing s = fold expire_one [user_id (a s), user_id (b s)] s"

definition apply_choke_tick :: "nat \<Rightarrow> nat \<Rightarrow> DuelState \<Rightarrow> DuelState" where
  "apply_choke_tick n_breath n_flow s =
     (case choking s of
        None \<Rightarrow> s
      | Some (choker, target) \<Rightarrow>
          let nb = iclamp ((case breath s target of None \<Rightarrow> 50 | Some v \<Rightarrow> v)
                           - randint 6 10 n_breath) 0 100;
              nf = iclamp ((case bloodflow s target of None \<Rightarrow> 50 | Some v \<Rightarrow> v)
                           - randint 3 7 n_flow) 0 100;
              s1 = s\<lparr>breath := (breath s)(target \<mapsto> nb)\<rparr>;
              s2 = s1\<lparr>bloodflow := (bloodflow s1)(target \<mapsto> nf)\<rparr>
          in if nb \<le> 0 \<or> nf \<le> 0
             then
               let s3 = s2\<lparr>unconscious := insert target (unconscious s2)\<rparr>;
                   loser = (if user_id (a s3) = target then a s3 else b s3);
                   s4 = s3\<lparr>last_hit := (last_hit s3)
                            (target \<mapsto> \<lparr>by_id = choker, hit_type = ''strangled'', weapon = ''''\<rparr>)\<rparr>
               in add_raw (PassesOut (name loser)) s4
             else s2)"

definition end_turn :: "nat \<Rightarrow> nat \<Rightarrow> DuelState \<Rightarrow> DuelState" where
  "end_turn n_breath n_flow s =
     (let s1 = s\<lparr>turn_id := turn_id s XOR 1\<rparr>;
          s2 = (if turn_id s1 = 0 then s1\<lparr>round_no := round_no s1 + 1\<rparr> else s1);
          s3 = s2\<lparr>turn_tick := turn_tick s2 + 1\<rparr>;
          s4 = (if grappling s3 then s3\<lparr>grapple_flip := grapple_flip s3 XOR 1\<rparr> else s3);
          cur = current s4;
          s5 = (if user_id cur \<in> skip_turn_for s4
                then
                  let t1 = s4\<lparr>skip_turn_for := skip_turn_for s4 - {user_id cur}\<rparr>;
                      t2 = add_raw (StaggeredLosesTurn (name cur)) t1;
                      t3 = t2\<lparr>turn_id := turn_id t2 XOR 1\<rparr>;
                      t4 = (if turn_id t3 = 0 then t3\<lparr>round_no := round_no t3 + 1\<rparr> else t3)
                  in t4\<lparr>turn_tick := turn_tick t4 + 1\<rparr>
                else s4)
      in expire_clearing (apply_choke_tick n_breath n_flow s5))"


section \<open>Creating a duel\<close>

text \<open>
  The dataclass defaults of \<open>DuelState\<close> followed by \<open>__post_init__\<close>, for a state created
  with two combatants and no positions. The attached attributes start as the action layer
  reads a missing attribute: no finisher, an empty cover line, no trails.
\<close>

definition DuelState_defaults :: "int \<Rightarrow> int \<Rightarrow> Combatant \<Rightarrow> Combatant \<Rightarrow> DuelState" where
  "DuelState_defaults gid cid ca cb =
     \<lparr>guild_id = gid, channel_id = cid, a = ca, b = cb,
      range_idx = 2, vis_segments = 26, pos = Map.empty, last_mover = None,
      turn_id = 0, log_lines = [], full_log_lines = [], active = True, round_no = 1,
      grappling = False, positioning = Map.empty, choking = None,
      breath = Map.empty, bloodflow = Map.empty, unconscious = {},
      clearing_stacks = Map.empty, clearing_expiries = Map.empty, turn_tick = 0,
      hidden = {}, in_cover = {}, cover_pct = Map.empty, grenades_pending = Map.empty,
      skip_turn_for = {}, last_hit = Map.empty,
      grapple_just_started = False, grapple_starter_id = None, grapple_flip = 0,
      finisher = None, cover_line = [], trails = Map.empty\<rparr>"

definition post_init :: "DuelState \<Rightarrow> DuelState" where
  "post_init s =
     (let s1 = (if pos s = Map.empty
                then
                  let d = target_vis_gap s;
                      left = max 0 ((vis_segments s - d) div 2 - 1);
                      t1 = s\<lparr>pos := (pos s)(user_id (a s) \<mapsto> left)\<rparr>
                  in t1\<lparr>pos := (pos t1)(user_id (b t1) \<mapsto> min (vis_segments t1 - 1) (left + d))\<rparr>
                else s);
          s2 = s1\<lparr>positioning := (positioning s1)(user_id (a s1) \<mapsto> 50)\<rparr>
      in s2\<lparr>positioning := (positioning s2)(user_id (b s2) \<mapsto> 50)\<rparr>)"

definition new_duel :: "int \<Rightarrow> int \<Rightarrow> Combatant \<Rightarrow> Combatant \<Rightarrow> DuelState" where
  "new_duel gid cid ca cb = post_init (DuelState_defaults gid cid ca cb)"

section \<open>Loadout and attack numbers\<close>

record WeaponProfile =
  wp_name :: string
  wclass :: string
  ranges :: "string list"
  base_damage :: int
  base_accuracy :: int

record combatkit =
  primary :: "WeaponProfile option"
  secondary :: "WeaponProfile option"
  mods :: "string \<rightharpoonup> int"
  preferred_slot :: string

text \<open>
  The external providers: the stats snapshot of a player, the combat kit of a player in a
  guild, and the equipped item ids of a player by slot.
\<close>

record env =
  load_player_stats :: "int \<Rightarrow> player_stats"
  get_combatkit :: "int \<Rightarrow> int \<Rightarrow> combatkit"
  equipped_ids :: "int \<Rightarrow> (string \<rightharpoonup> string)"

text \<open>\<open>kit.get(slot)\<close> for the two keys of the kit that hold a weapon profile.\<close>

definition kit_slot :: "combatkit \<Rightarrow> string \<Rightarrow> WeaponProfile option" where
  "kit_slot kit slot =
     (if slot = ''primary'' then primary kit
      else if slot = ''secondary'' then secondary kit
      else None)"

fun pick_from :: "string \<Rightarrow> combatkit \<Rightarrow> string list \<Rightarrow> (string \<times> WeaponProfile) option" where
  "pick_from range_state kit [] = None"
| "pick_from range_state kit (slot # cand) =
     (case kit_slot kit slot of
        None \<Rightarrow> pick_from range_state kit cand
      | Some wp \<Rightarrow>
          if range_state \<in> set (ranges wp) then Some (slot, wp)
          else pick_from range_state kit cand)"

definition pick_weapon_for_range :: "string \<Rightarrow> combatkit \<Rightarrow> (string \<times> WeaponProfile) option" where
  "pick_weapon_for_range range_state kit =
     (let pref = preferred_slot kit;
          cand = [pref, if pref = ''secondary'' then ''primary'' else ''secondary'']
      in pick_from range_state kit cand)"

definition RANGE_ACC_MOD :: "string \<rightharpoonup> int" where
  "RANGE_ACC_MOD =
     [''Close'' \<mapsto> 10, ''Near'' \<mapsto> 0, ''Mid'' \<mapsto> - 10, ''Far'' \<mapsto> - 20,
      ''Out-of-Range'' \<mapsto> - 999]"

definition Fists :: WeaponProfile where
  "Fists = \<lparr>wp_name = ''Fists'', wclass = ''melee'', ranges = [],
            base_damage = 6, base_accuracy = 70\<rparr>"

text \<open>
  The dictionary \<open>compute_attack_numbers\<close> returns: not ready with a reason and a message,
  or ready with the slot, the weapon, the accuracy and the damage.
\<close>

datatype attack_calc =
    NotReady string log_text
  | Ready string WeaponProfile int int

definition compute_attack_numbers :: "env \<Rightarrow> int \<Rightarrow> int \<Rightarrow> string \<Rightarrow> attack_calc" where
  "compute_attack_numbers e gid attacker_user_id range_state =
     (let kit = get_combatkit e gid attacker_user_id;
          picked = pick_weapon_for_range range_state kit;
          mds = mods kit;
          sel = (case picked of
                   Some sw \<Rightarrow> Some sw
                 | None \<Rightarrow> if range_state \<noteq> ''Close'' then None else Some (''unarmed'', Fists))
      in case sel of
           None \<Rightarrow> NotReady ''no_weapon_too_far'' (NoViableWeaponAt range_state)
         | Some (slot, wp) \<Rightarrow>
             let acc0 = base_accuracy wp
                        + (case mds ''accuracy'' of None \<Rightarrow> 0 | Some v \<Rightarrow> v)
                        + (case RANGE_ACC_MOD range_state of None \<Rightarrow> 0 | Some v \<Rightarrow> v);
                 acc = max 5 (min 95 acc0);
                 dmg0 = base_damage wp + (case mds ''damage'' of None \<Rightarrow> 0 | Some v \<Rightarrow> v);
                 dmg = max 1 dmg0
             in Ready slot wp acc dmg)"

definition armor_kind_from_wclass :: "string \<Rightarrow> string" where
  "armor_kind_from_wclass wcls =
     (if wcls = ''melee'' then ''melee''
      else if wcls = ''pistol'' \<or> wcls = ''smg'' then ''small_ranged''
      else if wcls = ''shotgun'' \<or> wcls = ''rifle'' then ''large_ranged''
      else ''ranged'')"

section \<open>Actions\<close>

text \<open>
  The raw entropy of one actor's turn, one field for each place a turn can draw:
  movement steps, \<open>random.random()\<close>, a damage roll, the grapple choice of the scripted
  opponent, the two squeeze draws and the two draws of the choke tick in \<open>end_turn\<close>.
\<close>

record draws =
  n_steps :: nat
  roll :: rat
  n_dmg :: nat
  n_choice :: nat
  n_breath :: nat
  n_flow :: nat
  n_tick_breath :: nat
  n_tick_flow :: nat

definition current_side :: "DuelState \<Rightarrow> side" where
  "current_side s = (if turn_id s = 0 then SideA else SideB)"

definition other_side :: "DuelState \<Rightarrow> side" where
  "other_side s = (if turn_id s = 0 then SideB else SideA)"

text \<open>Assignment to \<open>c.hp\<close> where \<open>c\<close> is one of the two combatant objects of the state.\<close>

definition set_hp :: "side \<Rightarrow> int \<Rightarrow> DuelState \<Rightarrow> DuelState" where
  "set_hp sd v s =
     (case sd of
        SideA \<Rightarrow> s\<lparr>a := (a s)\<lparr>hp := v\<rparr>\<rparr>
      | SideB \<Rightarrow> s\<lparr>b := (b s)\<lparr>hp := v\<rparr>\<rparr>)"

definition can_throw_grenade :: "env \<Rightarrow> int \<Rightarrow> bool" where
  "can_throw_grenade e uid =
     (case equipped_ids e uid ''grenade'' of None \<Rightarrow> False | Some iid \<Rightarrow> iid \<noteq> [])"

definition grenade_hit_chance :: "env \<Rightarrow> DuelState \<Rightarrow> int \<Rightarrow> int \<Rightarrow> rat" where
  "grenade_hit_chance e s thrower_id target_id =
     (let p = 80 / 100 - of_int (range_idx s) * (12 / 100);
          s_throw = fitness (load_player_stats e thrower_id);
          s_tgt = fitness (load_player_stats e target_id)
      in clamp (p + (1 / 100) * (s_throw - s_tgt)) (10 / 100) (95 / 100))"

definition resolve_pending_grenade :: "env \<Rightarrow> side \<Rightarrow> DuelState \<Rightarrow> DuelState" where
  "resolve_pending_grenade e acted s =
     (case grenades_pending s (user_id (fighter s acted)) of
        None \<Rightarrow> s
      | Some pend \<Rightarrow>
          let uid = user_id (fighter s acted);
              dfn = load_player_stats e uid;
              raw = damage pend;
              (final, mit) = apply_armor_reduction dfn raw ''grenade'';
              s1 = set_hp acted (max 0 (hp (fighter s acted) - final)) s;
              thrower_id = from_id pend;
              s2 = record_hit thrower_id uid ''grenade'' ''grenade'' s1;
              s3 = push (GrenadeDetonates (name (fighter s2 acted)) final mit) s2
          in s3\<lparr>grenades_pending := (grenades_pending s3)(uid := None)\<rparr>)"

definition fists_too_far :: "DuelState \<Rightarrow> py_error + bool" where
  "fists_too_far s =
     (if grappling s then Inr False else bind_err (can_grapple s) (\<lambda>c. Inr (\<not> c)))"

text \<open>
  The hit roll shared by \<open>_attack_once\<close> and the ranged branch of the scripted opponent,
  which repeat it line for line; \<open>tag\<close> marks the opponent's wording of the log lines.
\<close>

definition hit_roll ::
  "(log_text \<Rightarrow> log_text) \<Rightarrow> env \<Rightarrow> rat \<Rightarrow> side \<Rightarrow> WeaponProfile \<Rightarrow> int \<Rightarrow> int
     \<Rightarrow> DuelState \<Rightarrow> DuelState" where
  "hit_roll tag e r att wp acc dmg s =
     (let attacker = fighter s att;
          dside = (case att of SideA \<Rightarrow> SideB | SideB \<Rightarrow> SideA);
          defender = fighter s dside;
          p0 = of_int acc / 100;
          p1 = (if user_id defender \<in> in_cover s
                then p0 * (1 - of_int (case cover_pct s (user_id defender) of
                                         None \<Rightarrow> 0 | Some c \<Rightarrow> c) / 100)
                else p0);
          p2 = (if user_id defender \<in> hidden s then 0 else p1);
          atk = load_player_stats e (user_id attacker);
          dfn = load_player_stats e (user_id defender);
          p3 = p2 + (15 / 1000) * (combat atk - combat dfn)
                  + (10 / 1000) * (fitness atk - fitness dfn);
          p = clamp p3 0 (98 / 100)
      in if r \<le> p
         then
           let kind = armor_kind_from_wclass (wclass wp);
               (final, mit) = apply_armor_reduction dfn dmg kind;
               s1 = set_hp dside (max 0 (hp defender - final)) s;
               s2 = (if wp_name wp = ''Fists''
                     then push (tag (SwingsAndHits (name attacker) (name defender) final mit)) s1
                     else push (tag (HitsWith (name attacker) (name defender) (wp_name wp)
                                       final mit)) s1)
           in record_hit (user_id attacker) (user_id defender) ''shot'' (wp_name wp) s2
         else
           (if wp_name wp = ''Fists''
            then push (tag (SwingsAndMisses (name attacker))) s
            else push (tag (FiresAndMisses (name attacker))) s))"

definition attack_once :: "env \<Rightarrow> rat \<Rightarrow> side \<Rightarrow> DuelState \<Rightarrow> py_error + DuelState" where
  "attack_once e r att s =
     bind_err (rngate s) (\<lambda>g.
       let rng_name = rg_to_loadout_range g;
           calc = compute_attack_numbers e (guild_id s) (user_id (fighter s att)) rng_name
       in case calc of
            NotReady reason msg \<Rightarrow> Inr (push msg s)
          | Ready slot wp acc dmg \<Rightarrow>
              bind_err (if wp_name wp = ''Fists'' then fists_too_far s else Inr False) (\<lambda>far.
                if far then Inr (push (TooFarToSwing (name (fighter s att))) s)
                else Inr (hit_roll (\<lambda>t. t) e r att wp acc dmg s)))"

definition mark_trail :: "int \<Rightarrow> DuelState \<Rightarrow> DuelState" where
  "mark_trail uid s =
     (let segs = vis_segments s;
          idx = iclamp (case pos s uid of None \<Rightarrow> 0 | Some p \<Rightarrow> p) 0 (segs - 1)
      in s\<lparr>trails := (trails s)
             (uid \<mapsto> insert idx (case trails s uid of None \<Rightarrow> {} | Some v \<Rightarrow> v))\<rparr>)"

definition COVER_PCT_DEFAULT :: int where
  "COVER_PCT_DEFAULT = 40"

definition cover_flag_one :: "side \<Rightarrow> DuelState \<Rightarrow> py_error + DuelState" where
  "cover_flag_one sd s =
     (let c = fighter s sd;
          segs = vis_segments s;
          idx = iclamp (case pos s (user_id c) of None \<Rightarrow> 0 | Some p \<Rightarrow> p) 0 (segs - 1);
          line = (if cover_line s = [] then replicate (nat segs) None else cover_line s)
      in bind_err (py_index line idx) (\<lambda>tok.
           if tok \<noteq> None
           then Inr (s\<lparr>in_cover := insert (user_id c) (in_cover s),
                      cover_pct := (cover_pct s)(user_id c \<mapsto> COVER_PCT_DEFAULT)\<rparr>)
           else Inr (s\<lparr>in_cover := in_cover s - {user_id c},
                      cover_pct := (cover_pct s)(user_id c := None)\<rparr>)))"

definition update_cover_flags :: "DuelState \<Rightarrow> py_error + DuelState" where
  "update_cover_flags s = bind_err (cover_flag_one SideA s) (cover_flag_one SideB)"

definition maybe_offer_finisher :: "DuelState \<Rightarrow> bool \<times> DuelState" where
  "maybe_offer_finisher s =
     (case winner s of
        None \<Rightarrow> (False, s)
      | Some w \<Rightarrow>
          let loser = (case w of SideB \<Rightarrow> a s | SideA \<Rightarrow> b s)
          in if user_id loser \<in> unconscious s \<and> active s
             then
               let s1 = (if finisher s = None
                         then s\<lparr>finisher := Some (user_id (fighter s w), user_id loser)\<rparr>
                         else s);
                   s2 = (if log_lines s1 = [] \<or> last (log_lines s1) \<noteq> Raw OpponentUnconscious
                         then add_raw OpponentUnconscious s1 else s1)
               in (True, s2)
             else (False, s))"

definition end_if_finished_or_offer :: "DuelState \<Rightarrow> DuelState" where
  "end_if_finished_or_offer s =
     (let (offered, s1) = maybe_offer_finisher s
      in if offered then s1
         else if is_draw s1
         then push BothFall (s1\<lparr>finisher := None, active := False\<rparr>)
         else
           (case winner s1 of
              None \<Rightarrow> s1
            | Some w \<Rightarrow> push (Wins (name (fighter s1 w))) (s1\<lparr>finisher := None, active := False\<rparr>)))"

definition end_and_update :: "DuelState \<Rightarrow> DuelState" where
  "end_and_update s = end_if_finished_or_offer s"

section \<open>Grapple and choke actions\<close>

text \<open>
  The effects below are written once in the model where the source repeats them line for
  line in a button handler and in the scripted opponent; \<open>tag\<close> is the wording of the
  log line (\<open>Robot\<close> for the opponent).
\<close>

definition squeeze :: "log_text \<Rightarrow> nat \<Rightarrow> nat \<Rightarrow> int \<Rightarrow> int \<Rightarrow> DuelState \<Rightarrow> DuelState" where
  "squeeze line nb_raw nf_raw choker target s =
     (let nb = iclamp ((case breath s target of None \<Rightarrow> 50 | Some v \<Rightarrow> v)
                       - randint 8 12 nb_raw) 0 100;
          s1 = s\<lparr>breath := (breath s)(target \<mapsto> nb)\<rparr>;
          nf = iclamp ((case bloodflow s1 target of None \<Rightarrow> 50 | Some v \<Rightarrow> v)
                       - randint 4 8 nf_raw) 0 100;
          s2 = s1\<lparr>bloodflow := (bloodflow s1)(target \<mapsto> nf)\<rparr>;
          s3 = push line s2
      in if nb \<le> 0 \<or> nf \<le> 0
         then
           let s4 = s3\<lparr>unconscious := insert target (unconscious s3)\<rparr>;
               s5 = record_hit choker target ''strangled'' [] s4
           in (case winner s5 of
                 None \<Rightarrow> s5
               | Some w \<Rightarrow>
                   let s6 = s5\<lparr>finisher := Some (user_id (fighter s5 w), target)\<rparr>
                   in if log_lines s6 = [] \<or> last (log_lines s6) \<noteq> Raw OpponentUnconscious
                      then add_raw OpponentUnconscious s6 else s6)
         else s3)"

definition wrestle_effect :: "(log_text \<Rightarrow> log_text) \<Rightarrow> draws \<Rightarrow> DuelState \<Rightarrow> DuelState" where
  "wrestle_effect tag d s =
     (let me = current s; foe = other s;
          dmg = randint 1 2 (n_dmg d);
          s1 = set_hp (other_side s) (max 0 (hp foe - dmg)) s;
          improved = (roll d < 1 / 2);
          s2 = (if improved
                then
                  let t1 = s1\<lparr>positioning := (positioning s1)
                             (user_id me \<mapsto> iclamp ((case positioning s1 (user_id me) of
                                                        None \<Rightarrow> 50 | Some v \<Rightarrow> v) + 10) 0 100)\<rparr>
                  in t1\<lparr>positioning := (positioning t1)
                          (user_id foe \<mapsto> iclamp ((case positioning t1 (user_id foe) of
                                                      None \<Rightarrow> 50 | Some v \<Rightarrow> v) - 10) 0 100)\<rparr>
                else s1);
          s3 = push (tag (Wrestles (name me) (name foe) dmg improved)) s2
      in record_hit (user_id me) (user_id foe) ''wrestle'' [] s3)"

definition punch_effect :: "(log_text \<Rightarrow> log_text) \<Rightarrow> draws \<Rightarrow> DuelState \<Rightarrow> DuelState" where
  "punch_effect tag d s =
     (let me = current s; foe = other s;
          dmg = randint 1 5 (n_dmg d);
          s1 = set_hp (other_side s) (max 0 (hp foe - dmg)) s;
          s2 = push (tag (Punches (name me) (name foe) dmg)) s1
      in record_hit (user_id me) (user_id foe) ''punch'' ''Fists'' s2)"

definition breakfree_effect :: "(log_text \<Rightarrow> log_text) \<Rightarrow> draws \<Rightarrow> DuelState \<Rightarrow> DuelState" where
  "breakfree_effect tag d s =
     (let me = current s; foe = other s;
          my_pos = (case positioning s (user_id me) of None \<Rightarrow> 50 | Some v \<Rightarrow> v);
          their_pos = (case positioning s (user_id foe) of None \<Rightarrow> 50 | Some v \<Rightarrow> v);
          p = clamp (40 / 100 + of_int (my_pos - their_pos) / 200) (10 / 100) (90 / 100)
      in if roll d \<le> p
         then push (tag (BreaksFree (name me))) (s\<lparr>grappling := False, choking := None\<rparr>)
         else
           let t1 = s\<lparr>positioning := (positioning s)(user_id me \<mapsto> iclamp (my_pos - 5) 0 100)\<rparr>;
               t2 = t1\<lparr>positioning := (positioning t1)
                         (user_id foe \<mapsto> iclamp (their_pos + 5) 0 100)\<rparr>
           in push (tag (BreakFreeFails (name me))) t2)"

section \<open>The scripted opponent\<close>

definition ai_advance :: "draws \<Rightarrow> DuelState \<Rightarrow> py_error + DuelState" where
  "ai_advance d s =
     (let ai = current s;
          step = randint 1 2 (n_steps d)
      in bind_err (micro_move (user_id ai) step s) (\<lambda>s1.
           bind_err (update_cover_flags (mark_trail (user_id ai) s1)) (\<lambda>s2.
             Inr (push (Robot (Advances (name ai) step)) s2))))"

definition maybe_ai_take_turn :: "env \<Rightarrow> draws \<Rightarrow> DuelState \<Rightarrow> py_error + DuelState" where
  "maybe_ai_take_turn e d s =
     (if \<not> active s \<or> \<not> is_ai (current s) then Inr s
      else
        let (offered, s0) = maybe_offer_finisher s
        in if offered then Inr s0
           else
             let s1 = resolve_pending_grenade e (current_side s0) s0;
                 ai = current s1;
                 foe = other s1
             in case choking s1 of
                  Some (choker, target) \<Rightarrow>
                    if user_id ai = choker
                    then Inr (end_turn (n_tick_breath d) (n_tick_flow d)
                                (squeeze (Robot (TightensChoke (name ai))) (n_breath d) (n_flow d)
                                   choker target s1))
                    else Inr (end_turn (n_tick_breath d) (n_tick_flow d)
                                (push (Robot (StrugglesForAir (name ai))) s1))
                | None \<Rightarrow>
                    if grappling s1
                    then
                      let choice = n_choice d mod 3;
                          s2 = (if choice = 0 then wrestle_effect Robot d s1
                                else if choice = 1 then punch_effect Robot d s1
                                else breakfree_effect Robot d s1)
                      in Inr (end_turn (n_tick_breath d) (n_tick_flow d) s2)
                    else
                      bind_err (rngate s1) (\<lambda>g.
                        let rng_name = rg_to_loadout_range g;
                            calc = compute_attack_numbers e (guild_id s1) (user_id ai) rng_name
                        in bind_err
                             (case calc of
                                NotReady reason msg \<Rightarrow> Inr (s1, False)
                              | Ready slot wp acc dmg \<Rightarrow>
                                  bind_err (if wp_name wp = ''Fists'' then fists_too_far s1
                                            else Inr False) (\<lambda>far.
                                    if far
                                    then bind_err (ai_advance d s1) (\<lambda>t. Inr (t, True))
                                    else Inr (hit_roll Robot e (roll d) (current_side s1)
                                                wp acc dmg s1, True)))
                             (\<lambda>(s2, took_action).
                                bind_err (if \<not> took_action then ai_advance d s2 else Inr s2)
                                  (\<lambda>s3. Inr (end_turn (n_tick_breath d) (n_tick_flow d) s3)))))"

section \<open>Button handlers\<close>

text \<open>
  A handler receives the id of the user who pressed the button, the draws of that user's
  turn and the draws of the scripted opponent's turn that may follow. A rejected press
  returns the state as it was.
\<close>

definition is_my_turn_main :: "int \<Rightarrow> DuelState \<Rightarrow> bool" where
  "is_my_turn_main user s =
     (if \<not> active s then False
      else if user \<noteq> user_id (current s) then False
      else True)"

definition is_my_turn_grapple :: "int \<Rightarrow> DuelState \<Rightarrow> bool" where
  "is_my_turn_grapple user s =
     (if \<not> active s then False
      else if user \<noteq> user_id (current s) then False
      else if \<not> grappling s \<or> choking s \<noteq> None then False
      else True)"

definition is_my_turn_choke :: "int \<Rightarrow> DuelState \<Rightarrow> bool" where
  "is_my_turn_choke user s =
     (if \<not> active s then False
      else if user \<noteq> user_id (current s) then False
      else if (case choking s of None \<Rightarrow> True | Some (choker, target) \<Rightarrow> choker \<noteq> user)
      then False
      else True)"

definition finish_turn :: "env \<Rightarrow> draws \<Rightarrow> draws \<Rightarrow> DuelState \<Rightarrow> py_error + DuelState" where
  "finish_turn e d d_ai s =
     (let s1 = end_turn (n_tick_breath d) (n_tick_flow d) s
      in bind_err (maybe_ai_take_turn e d_ai s1) (\<lambda>s2. Inr (end_and_update s2)))"

definition btn_advance :: "env \<Rightarrow> int \<Rightarrow> draws \<Rightarrow> draws \<Rightarrow> DuelState \<Rightarrow> py_error + DuelState" where
  "btn_advance e user d d_ai s =
     (if \<not> is_my_turn_main user s then Inr s
      else
        let s1 = resolve_pending_grenade e (current_side s) s;
            steps = randint 1 2 (n_steps d)
        in bind_err (micro_move user steps s1) (\<lambda>s2.
             bind_err (update_cover_flags (mark_trail user s2)) (\<lambda>s3.
               finish_turn e d d_ai (push (Advances (name (current s3)) steps) s3))))"

definition btn_attack :: "env \<Rightarrow> int \<Rightarrow> draws \<Rightarrow> draws \<Rightarrow> DuelState \<Rightarrow> py_error + DuelState" where
  "btn_attack e user d d_ai s =
     (if \<not> is_my_turn_main user s then Inr s
      else
        let s1 = resolve_pending_grenade e (current_side s) s
        in bind_err (attack_once e (roll d) (current_side s1) s1) (finish_turn e d d_ai))"

definition btn_grenade :: "env \<Rightarrow> int \<Rightarrow> draws \<Rightarrow> draws \<Rightarrow> DuelState \<Rightarrow> py_error + DuelState" where
  "btn_grenade e user d d_ai s =
     (if \<not> is_my_turn_main user s then Inr s
      else
        let thrower = current s; target = other s;
            s1 = (if \<not> can_throw_grenade e (user_id thrower)
                  then push (FumblesGrenade (name thrower)) s
                  else
                    let p = grenade_hit_chance e s (user_id thrower) (user_id target)
                    in if roll d \<le> p
                       then
                         let dmg = randint 30 40 (n_dmg d);
                             t1 = s\<lparr>grenades_pending := (grenades_pending s)
                                    (user_id target \<mapsto>
                                       \<lparr>from_id = user_id thrower, damage = dmg\<rparr>)\<rparr>
                         in push (LobsGrenade (name thrower) (name target)) t1
                       else push (GrenadeMisses (name thrower)) s)
        in finish_turn e d d_ai s1)"

definition btn_disengage :: "env \<Rightarrow> int \<Rightarrow> draws \<Rightarrow> draws \<Rightarrow> DuelState \<Rightarrow> py_error + DuelState" where
  "btn_disengage e user d d_ai s =
     (if \<not> is_my_turn_main user s then Inr s
      else
        let s1 = resolve_pending_grenade e (current_side s) s;
            steps = - randint 1 3 (n_steps d)
        in bind_err (micro_move user steps s1) (\<lambda>s2.
             bind_err (update_cover_flags (mark_trail user s2)) (\<lambda>s3.
               finish_turn e d d_ai (push (Retreats (name (current s3)) \<bar>steps\<bar>) s3))))"

definition btn_grapple :: "int \<Rightarrow> DuelState \<Rightarrow> py_error + DuelState" where
  "btn_grapple user s =
     (if \<not> is_my_turn_main user s then Inr s
      else bind_err (can_grapple s) (\<lambda>ok. if \<not> ok then Inr s else begin_grapple user s))"

definition btn_choke :: "env \<Rightarrow> int \<Rightarrow> draws \<Rightarrow> draws \<Rightarrow> DuelState \<Rightarrow> py_error + DuelState" where
  "btn_choke e user d d_ai s =
     (if \<not> is_my_turn_grapple user s then Inr s
      else
        let me = current s; foe = other s;
            my_pos = (case positioning s (user_id me) of None \<Rightarrow> 50 | Some v \<Rightarrow> v);
            their_pos = (case positioning s (user_id foe) of None \<Rightarrow> 50 | Some v \<Rightarrow> v);
            p = clamp (50 / 100 + of_int (my_pos - their_pos) / 200) (20 / 100) (85 / 100);
            s1 = (if roll d \<le> p
                  then
                    let t1 = s\<lparr>choking := Some (user_id me, user_id foe)\<rparr>;
                        t2 = t1\<lparr>breath := (breath t1)
                                  (user_id foe \<mapsto> (case breath t1 (user_id foe) of
                                                      None \<Rightarrow> 50 | Some v \<Rightarrow> v))\<rparr>;
                        t3 = t2\<lparr>bloodflow := (bloodflow t2)
                                  (user_id foe \<mapsto> (case bloodflow t2 (user_id foe) of
                                                      None \<Rightarrow> 50 | Some v \<Rightarrow> v))\<rparr>
                    in push (SecuresChoke (name me) (name foe)) t3
                  else push (ChokeFails (name me)) s)
        in finish_turn e d d_ai s1)"

definition btn_wrestle :: "env \<Rightarrow> int \<Rightarrow> draws \<Rightarrow> draws \<Rightarrow> DuelState \<Rightarrow> py_error + DuelState" where
  "btn_wrestle e user d d_ai s =
     (if \<not> is_my_turn_grapple user s then Inr s
      else finish_turn e d d_ai (wrestle_effect (\<lambda>t. t) d s))"

definition btn_punch :: "env \<Rightarrow> int \<Rightarrow> draws \<Rightarrow> draws \<Rightarrow> DuelState \<Rightarrow> py_error + DuelState" where
  "btn_punch e user d d_ai s =
     (if \<not> is_my_turn_grapple user s then Inr s
      else finish_turn e d d_ai (punch_effect (\<lambda>t. t) d s))"

definition btn_breakfree :: "env \<Rightarrow> int \<Rightarrow> draws \<Rightarrow> draws \<Rightarrow> DuelState \<Rightarrow> py_error + DuelState" where
  "btn_breakfree e user d d_ai s =
     (if \<not> is_my_turn_grapple user s then Inr s
      else finish_turn e d d_ai (breakfree_effect (\<lambda>t. t) d s))"

definition btn_squeeze :: "env \<Rightarrow> int \<Rightarrow> draws \<Rightarrow> draws \<Rightarrow> DuelState \<Rightarrow> py_error + DuelState" where
  "btn_squeeze e user d d_ai s =
     (if \<not> is_my_turn_choke user s then Inr s
      else
        (case choking s of
           None \<Rightarrow> Inr s
         | Some (choker, target) \<Rightarrow>
             finish_turn e d d_ai
               (squeeze (TightensChoke (name (current s))) (n_breath d) (n_flow d)
                  choker target s)))"

definition btn_letgo :: "env \<Rightarrow> int \<Rightarrow> draws \<Rightarrow> draws \<Rightarrow> DuelState \<Rightarrow> py_error + DuelState" where
  "btn_letgo e user d d_ai s =
     (if \<not> is_my_turn_choke user s then Inr s
      else finish_turn e d d_ai
             (push (ReleasesChoke (name (current s))) (s\<lparr>choking := None\<rparr>)))"

section \<open>Dictionary reads with a default\<close>

text \<open>\<open>clearing_stacks.get(uid, 0)\<close> and \<open>clearing_expiries.get(uid, [])\<close>, as the theorems write them.\<close>

abbreviation stacks_get :: "DuelState \<Rightarrow> int \<Rightarrow> int" where
  "stacks_get s uid \<equiv> (case clearing_stacks s uid of None \<Rightarrow> 0 | Some n \<Rightarrow> n)"

abbreviation expiries_get :: "DuelState \<Rightarrow> int \<Rightarrow> int list" where
  "expiries_get s uid \<equiv> (case clearing_expiries s uid of None \<Rightarrow> [] | Some e \<Rightarrow> e)"

text \<open>\<open>breath.get(uid, 50)\<close> and \<open>bloodflow.get(uid, 50)\<close>.\<close>

abbreviation breath_get :: "DuelState \<Rightarrow> int \<Rightarrow> int" where
  "breath_get s uid \<equiv> (case breath s uid of None \<Rightarrow> 50 | Some v \<Rightarrow> v)"

abbreviation bloodflow_get :: "DuelState \<Rightarrow> int \<Rightarrow> int" where
  "bloodflow_get s uid \<equiv> (case bloodflow s uid of None \<Rightarrow> 50 | Some v \<Rightarrow> v)"

section \<open>Phase invariant\<close>

text \<open>
  The engine grapples only at the HANDS gate and chokes only inside a grapple: the states
  it reaches from a new duel all satisfy \<open>phase_inv\<close>.
\<close>

definition phase_inv :: "DuelState \<Rightarrow> bool" where
  "phase_inv s =
     ((grappling s \<longrightarrow> rngate s = Inr HANDS) \<and> (choking s \<noteq> None \<longrightarrow> grappling s))"

section \<open>Example duels\<close>

text \<open>Concrete combatants and states on which the theorems below are exercised.\<close>

definition Ann :: Combatant where
  "Ann = \<lparr>user_id = 1, name = ''Ann'', hp = 100, is_ai = False, ai_medkit = True\<rparr>"

definition Bob :: Combatant where
  "Bob = \<lparr>user_id = 2, name = ''Bob'', hp = 100, is_ai = False, ai_medkit = True\<rparr>"

definition duel0 :: DuelState where
  "duel0 =
     \<lparr>guild_id = 7, channel_id = 9, a = Ann, b = Bob,
      range_idx = 2, vis_segments = 26, pos = [1 \<mapsto> 6, 2 \<mapsto> 18], last_mover = None,
      turn_id = 0, log_lines = [], full_log_lines = [], active = True, round_no = 1,
      grappling = False, positioning = [1 \<mapsto> 50, 2 \<mapsto> 50], choking = None,
      breath = Map.empty, bloodflow = Map.empty, unconscious = {},
      clearing_stacks = Map.empty, clearing_expiries = Map.empty, turn_tick = 0,
      hidden = {}, in_cover = {}, cover_pct = Map.empty, grenades_pending = Map.empty,
      skip_turn_for = {}, last_hit = Map.empty,
      grapple_just_started = False, grapple_starter_id = None, grapple_flip = 0,
      finisher = None, cover_line = [], trails = Map.empty\<rparr>"

definition ko_duel :: DuelState where
  "ko_duel = set_hp SideA 0 (duel0\<lparr>unconscious := {2}\<rparr>)"

text \<open>A grapple at the HANDS gate in which Ann chokes Bob, whose breath is down to 5.\<close>

definition choke_duel :: DuelState where
  "choke_duel =
     duel0\<lparr>range_idx := 0, pos := [1 \<mapsto> 11, 2 \<mapsto> 13], grappling := True,
           choking := Some (1, 2), breath := [2 \<mapsto> 5], bloodflow := [2 \<mapsto> 50]\<rparr>"

text \<open>The opening state with Bob flagged to lose his next turn.\<close>

definition stagger_duel :: DuelState where
  "stagger_duel = duel0\<lparr>skip_turn_for := {2}\<rparr>"

section \<open>Statements taken from the specification\<close>


section \<open>Verification\<close>

subsection \<open>Evaluation of the example states\<close>

lemma py_round_half: "py_round (25 / 2) = 12"
  by code_simp

text \<open>The first example state is the state the constructor builds for Ann and Bob.\<close>

lemma new_duel_Ann_Bob: "new_duel 7 9 Ann Bob = duel0"
  by (simp add: duel0_def new_duel_def post_init_def DuelState_defaults_def Let_def
      target_vis_gap_def RANGE_ORDER_def py_round_half iclamp_def Ann_def Bob_def)

lemma Ann_fields [simp]:
  "user_id Ann = 1" "name Ann = ''Ann''" "hp Ann = 100" "is_ai Ann = False"
  by (simp_all add: Ann_def)

lemma Bob_fields [simp]:
  "user_id Bob = 2" "name Bob = ''Bob''" "hp Bob = 100" "is_ai Bob = False"
  by (simp_all add: Bob_def)

lemma duel0_fields [simp]:
  "guild_id duel0 = 7" "a duel0 = Ann" "b duel0 = Bob" "range_idx duel0 = 2"
  "vis_segments duel0 = 26" "pos duel0 = [1 \<mapsto> 6, 2 \<mapsto> 18]" "turn_id duel0 = 0"
  "log_lines duel0 = []" "full_log_lines duel0 = []" "active duel0 = True"
  "round_no duel0 = 1" "grappling duel0 = False" "positioning duel0 = [1 \<mapsto> 50, 2 \<mapsto> 50]"
  "choking duel0 = None" "breath duel0 = Map.empty" "bloodflow duel0 = Map.empty"
  "unconscious duel0 = {}" "clearing_stacks duel0 = Map.empty"
  "clearing_expiries duel0 = Map.empty" "turn_tick duel0 = 0" "hidden duel0 = {}"
  "in_cover duel0 = {}" "cover_pct duel0 = Map.empty" "grenades_pending duel0 = Map.empty"
  "skip_turn_for duel0 = {}" "last_hit duel0 = Map.empty" "grapple_flip duel0 = 0"
  "finisher duel0 = None" "cover_line duel0 = []" "trails duel0 = Map.empty"
  by (simp_all add: duel0_def)

lemma choke_duel_fields [simp]:
  "a choke_duel = Ann" "b choke_duel = Bob" "range_idx choke_duel = 0"
  "vis_segments choke_duel = 26" "grappling choke_duel = True"
  "choking choke_duel = Some (1, 2)" "breath choke_duel = [2 \<mapsto> 5]"
  "bloodflow choke_duel = [2 \<mapsto> 50]" "pos choke_duel = [1 \<mapsto> 11, 2 \<mapsto> 13]"
  "unconscious choke_duel = {}" "last_hit choke_duel = Map.empty"
  by (simp_all add: choke_duel_def)

lemma py_round_8_5: "py_round (8 / 5) = 2"
  by code_simp

subsection \<open>Outcome\<close>

text \<open>
  C10. \<open>winner\<close> looks at hit points first: a combatant at 0 hit points loses to one above 0
  even when the latter is unconscious, and unconsciousness decides only when neither
  hit-point test applies. \<open>is_draw\<close> holds exactly when each combatant is at 0 hit points
  or unconscious.
\<close>

theorem winner_hp_before_unconscious:
  "(hp (a s) \<le> 0 \<and> 0 < hp (b s) \<longrightarrow> winner s = Some SideB) \<and>
   (hp (b s) \<le> 0 \<and> 0 < hp (a s) \<longrightarrow> winner s = Some SideA) \<and>
   (\<not> (hp (a s) \<le> 0 \<and> 0 < hp (b s)) \<and> \<not> (hp (b s) \<le> 0 \<and> 0 < hp (a s)) \<longrightarrow>
      winner s =
        (if user_id (a s) \<in> unconscious s \<and> user_id (b s) \<notin> unconscious s then Some SideB
         else if user_id (b s) \<in> unconscious s \<and> user_id (a s) \<notin> unconscious s then Some SideA
         else None)) \<and>
   is_draw s =
     ((hp (a s) \<le> 0 \<or> user_id (a s) \<in> unconscious s) \<and>
      (hp (b s) \<le> 0 \<or> user_id (b s) \<in> unconscious s))"
  by (simp add: winner_def is_draw_def)

text \<open>
  Ann is at 0 hit points, Bob is at 100 and unconscious: Bob wins, and the state also
  counts as a draw.
\<close>

theorem winner_hp_before_unconscious_witness:
  "hp (a ko_duel) \<le> 0 \<and> 0 < hp (b ko_duel) \<and> user_id (b ko_duel) \<in> unconscious ko_duel \<and>
   winner ko_duel = Some SideB \<and> is_draw ko_duel"
  using winner_hp_before_unconscious [of ko_duel]
  by (simp add: ko_duel_def duel0_def set_hp_def Ann_def Bob_def)

subsection \<open>Armor\<close>






subsection \<open>Movement and the grapple transition\<close>

lemma check_grapple_transition_fields [simp]:
  "pos (check_grapple_transition prev now actor s) = pos s"
  "range_idx (check_grapple_transition prev now actor s) = range_idx s"
  "vis_segments (check_grapple_transition prev now actor s) = vis_segments s"
  "a (check_grapple_transition prev now actor s) = a s"
  "b (check_grapple_transition prev now actor s) = b s"
  by (simp_all add: check_grapple_transition_def add_raw_def Let_def)

lemma rngate_check_grapple_transition [simp]:
  "rngate (check_grapple_transition prev now actor s) = rngate s"
  by (simp add: rngate_def)

lemma rngate_valid:
  "0 \<le> range_idx s \<Longrightarrow> range_idx s \<le> 4 \<Longrightarrow> \<exists>g. rngate s = Inr g"
  by (simp add: rngate_def py_index_def RANGE_ORDER_def)

lemma rngate_pos_upd [simp]: "rngate (s\<lparr>pos := m\<rparr>) = rngate s"
  by (simp add: rngate_def)

lemma rngate_iclamp:
  "rngate (s\<lparr>range_idx := iclamp v 0 4\<rparr>) = Inr (RANGE_ORDER ! nat (iclamp v 0 4))"
  by (simp add: rngate_def py_index_def RANGE_ORDER_def iclamp_def)

lemma iclamp_range: "lo \<le> hi \<Longrightarrow> lo \<le> iclamp v lo hi \<and> iclamp v lo hi \<le> hi"
  by (simp add: iclamp_def)



lemma sync_visual_positions_fields [simp]:
  "range_idx (sync_visual_positions m s) = range_idx s"
  "grappling (sync_visual_positions m s) = grappling s"
  "choking (sync_visual_positions m s) = choking s"
  by (simp_all add: sync_visual_positions_def Let_def split: prod.splits)

lemma rngate_sync [simp]: "rngate (sync_visual_positions m s) = rngate s"
  by (simp add: rngate_def)

lemma step_range_shape:
  assumes "step_range delta actor s = Inr s'"
  shows "\<exists>prev now t. rngate t = Inr now \<and> choking t = choking s \<and>
            range_idx t = iclamp (range_idx s + delta) 0 4 \<and>
            s' = check_grapple_transition prev now actor t"
proof -
  let ?t = "sync_visual_positions actor
              (s\<lparr>range_idx := iclamp (range_idx s + delta) 0 4, last_mover := actor\<rparr>)"
  from assms obtain prev where p: "rngate s = Inr prev"
    by (cases "rngate s") (simp_all add: step_range_def bind_err_def)
  from assms p obtain now where n: "rngate ?t = Inr now"
    by (cases "rngate ?t") (simp_all add: step_range_def bind_err_def Let_def RANGE_ORDER_def)
  from assms p n have "s' = check_grapple_transition prev now actor ?t"
    by (simp add: step_range_def bind_err_def Let_def RANGE_ORDER_def)
  with n show ?thesis by (intro exI [of _ prev] exI [of _ now] exI [of _ ?t]) simp
qed


lemma micro_move_idle:
  "grappling s \<or> (actor \<noteq> user_id (a s) \<and> actor \<noteq> user_id (b s)) \<Longrightarrow>
     micro_move actor k s = Inr s"
  by (auto simp add: micro_move_def Let_def)

lemma micro_move_active:
  assumes ng: "\<not> grappling s" and part: "actor = user_id (a s) \<or> actor = user_id (b s)"
      and c: "micro_move_coords actor k s = (pa', pb')"
  shows "micro_move actor k s =
           bind_err (rngate s) (\<lambda>prev.
             Inr (check_grapple_transition prev
                    (RANGE_ORDER ! nat (iclamp (py_round (of_int \<bar>pb' - pa'\<bar> / of_int (max 1 (vis_segments s - 1)) * 4)) 0 4))
                    (Some actor)
                    (s\<lparr>pos := (pos s)(user_id (a s) \<mapsto> pa', user_id (b s) \<mapsto> pb'),
                       range_idx := iclamp (py_round (of_int \<bar>pb' - pa'\<bar> / of_int (max 1 (vis_segments s - 1)) * 4)) 0 4\<rparr>)))"
  using ng part
  by (auto simp add: micro_move_def Let_def c bind_err_def RANGE_ORDER_def rngate_iclamp split: sum.splits)

lemma micro_move_coords_line:
  assumes part: "actor = user_id (a s) \<or> actor = user_id (b s)"
      and pa: "pos s (user_id (a s)) = Some pa" and pb: "pos s (user_id (b s)) = Some pb"
      and ne: "pa \<noteq> pb"
      and bnd: "0 \<le> pa" "pa \<le> vis_segments s - 1" "0 \<le> pb" "pb \<le> vis_segments s - 1"
  shows "\<exists>pa' pb'. micro_move_coords actor k s = (pa', pb') \<and> pa' \<noteq> pb' \<and>
           0 \<le> pa' \<and> pa' \<le> vis_segments s - 1 \<and> 0 \<le> pb' \<and> pb' \<le> vis_segments s - 1"
proof -
  have ab: "user_id (a s) \<noteq> user_id (b s)" using pa pb ne by auto
  consider (al) "actor = user_id (a s)" "pa < pb" | (ar) "actor = user_id (a s)" "pb < pa"
    | (bl) "actor = user_id (b s)" "pb < pa" | (br) "actor = user_id (b s)" "pa < pb"
    using part ne by fastforce
  then show ?thesis
  proof cases
    case al
    then show ?thesis using ab bnd
      by (cases "0 \<le> k") (auto simp add: micro_move_coords_def Let_def pa pb)
  next
    case ar
    then show ?thesis using ab bnd
      by (cases "0 \<le> k") (auto simp add: micro_move_coords_def Let_def pa pb)
  next
    case bl
    then show ?thesis using ab bnd
      by (cases "0 \<le> k") (auto simp add: micro_move_coords_def Let_def pa pb)
  next
    case br
    then show ?thesis using ab bnd
      by (cases "0 \<le> k") (auto simp add: micro_move_coords_def Let_def pa pb)
  qed
qed

lemma micro_move_line:
  assumes part: "actor = user_id (a s) \<or> actor = user_id (b s)"
      and ng: "\<not> grappling s"
      and idx: "0 \<le> range_idx s" "range_idx s \<le> 4"
      and pa: "pos s (user_id (a s)) = Some pa" and pb: "pos s (user_id (b s)) = Some pb"
      and ne: "pa \<noteq> pb"
      and bnd: "0 \<le> pa" "pa \<le> vis_segments s - 1" "0 \<le> pb" "pb \<le> vis_segments s - 1"
  shows "\<exists>s' pa' pb'. micro_move actor k s = Inr s' \<and>
           a s' = a s \<and> b s' = b s \<and> vis_segments s' = vis_segments s \<and>
           pos s' (user_id (a s)) = Some pa' \<and> pos s' (user_id (b s)) = Some pb' \<and>
           pa' \<noteq> pb' \<and> 0 \<le> pa' \<and> pa' \<le> vis_segments s - 1 \<and>
           0 \<le> pb' \<and> pb' \<le> vis_segments s - 1 \<and>
           range_idx s' =
             iclamp (py_round (of_int \<bar>pb' - pa'\<bar> / of_int (vis_segments s - 1)
                               * of_int (int (length RANGE_ORDER) - 1)))
               0 (int (length RANGE_ORDER) - 1) \<and>
           0 \<le> range_idx s' \<and> range_idx s' \<le> int (length RANGE_ORDER) - 1"
proof -
  have ab: "user_id (a s) \<noteq> user_id (b s)" using pa pb ne by auto
  obtain prev where p: "rngate s = Inr prev" using rngate_valid [OF idx] by blast
  have vis: "max 1 (vis_segments s - 1) = vis_segments s - 1" using bnd ne by simp
  from micro_move_coords_line [OF part pa pb ne bnd, of k] obtain pa' pb' where
    c: "micro_move_coords actor k s = (pa', pb')" and
    q: "pa' \<noteq> pb'" "0 \<le> pa'" "pa' \<le> vis_segments s - 1" "0 \<le> pb'" "pb' \<le> vis_segments s - 1"
    by blast
  let ?i = "iclamp (py_round (of_int \<bar>pb' - pa'\<bar> / of_int (max 1 (vis_segments s - 1)) * 4)) 0 4"
  have r: "0 \<le> ?i \<and> ?i \<le> 4" by (rule iclamp_range) simp
  show ?thesis
    unfolding micro_move_active [OF ng part c]
    using q ab r by (simp add: p bind_err_def vis RANGE_ORDER_def)
qed


lemma bind_err_Inr:
  "bind_err m f = Inr y \<Longrightarrow> \<exists>x. m = Inr x \<and> f x = Inr y"
  by (cases m) (simp_all add: bind_err_def)

lemma micro_move_result_shape:
  assumes ng: "\<not> grappling s" and part: "actor = user_id (a s) \<or> actor = user_id (b s)"
      and mm: "micro_move actor k s = Inr s'"
  shows "\<exists>prev now t. \<not> grappling t \<and> choking t = choking s \<and> rngate t = Inr now \<and>
           s' = check_grapple_transition prev now (Some actor) t"
proof -
  obtain pa' pb' where c: "micro_move_coords actor k s = (pa', pb')"
    by (cases "micro_move_coords actor k s")
  let ?i = "iclamp (py_round (of_int \<bar>pb' - pa'\<bar> / of_int (max 1 (vis_segments s - 1)) * 4)) 0 4"
  let ?t = "s\<lparr>pos := (pos s)(user_id (a s) \<mapsto> pa', user_id (b s) \<mapsto> pb'), range_idx := ?i\<rparr>"
  from mm have "bind_err (rngate s) (\<lambda>prev.
      Inr (check_grapple_transition prev (RANGE_ORDER ! nat ?i) (Some actor) ?t)) = Inr s'"
    unfolding micro_move_active [OF ng part c] .
  from bind_err_Inr [OF this] obtain prev where
    "Inr (check_grapple_transition prev (RANGE_ORDER ! nat ?i) (Some actor) ?t) = Inr s'"
    by blast
  then have e: "s' = check_grapple_transition prev (RANGE_ORDER ! nat ?i) (Some actor) ?t"
    by (simp only: sum.inject)
  have r: "rngate ?t = Inr (RANGE_ORDER ! nat ?i)"
    using rngate_iclamp [where s = "s\<lparr>pos := (pos s)(user_id (a s) \<mapsto> pa', user_id (b s) \<mapsto> pb')\<rparr>"]
    by simp
  from e r ng show ?thesis
    by (intro exI [of _ prev] exI [of _ "RANGE_ORDER ! nat ?i"] exI [of _ ?t]) simp
qed


text \<open>The phase invariant holds of a new duel and is kept by every range and grapple operation.\<close>

lemma phase_inv_new_duel: "phase_inv (new_duel gid cid ca cb)"
  by (simp add: phase_inv_def new_duel_def post_init_def DuelState_defaults_def Let_def)

lemma phase_inv_check:
  "rngate t = Inr now \<Longrightarrow> phase_inv (check_grapple_transition prev now actor t)"
  by (cases "choking t")
     (auto simp add: phase_inv_def check_grapple_transition_def add_raw_def Let_def rngate_def)

lemma phase_inv_step_range:
  assumes "step_range delta actor s = Inr s'"
  shows "phase_inv s'"
proof -
  from step_range_shape [OF assms] obtain prev now t where
    "rngate t = Inr now" "s' = check_grapple_transition prev now actor t" by blast
  then show ?thesis by (simp add: phase_inv_check)
qed

lemma phase_inv_begin_grapple:
  assumes "phase_inv s" and "begin_grapple starter s = Inr s'"
  shows "phase_inv s'"
  using assms
  by (cases "rngate s")
     (auto simp add: begin_grapple_def can_grapple_def bind_err_def phase_inv_def Let_def
        add_raw_def rngate_def split: if_splits)

lemma phase_inv_micro_move:
  assumes "phase_inv s" and mm: "micro_move actor k s = Inr s'"
  shows "phase_inv s'"
proof (cases "grappling s \<or> (actor \<noteq> user_id (a s) \<and> actor \<noteq> user_id (b s))")
  case True
  from micro_move_idle [OF True, of k] assms show ?thesis by simp
next
  case False
  then have ng: "\<not> grappling s" and part: "actor = user_id (a s) \<or> actor = user_id (b s)"
    by auto
  from micro_move_result_shape [OF ng part mm] obtain prev now t where
    "rngate t = Inr now" "s' = check_grapple_transition prev now (Some actor) t" by blast
  then show ?thesis by (simp add: phase_inv_check)
qed

lemma eval_micro_move_duel0:
  "(case micro_move 1 2 duel0 of
      Inl e \<Rightarrow> False
    | Inr s' \<Rightarrow> pos s' 1 = Some 8 \<and> pos s' 2 = Some 18 \<and> range_idx s' = 2 \<and>
        rngate s' = Inr MID)"
  by (simp add: micro_move_def micro_move_coords_def Let_def
      bind_err_def rngate_def py_index_def RANGE_ORDER_def iclamp_def py_round_8_5)


text \<open>
  C4. While grappling, \<open>micro_move\<close> returns the state unchanged. Outside a grapple, called
  by one of the two participants on a state whose gate index is valid and whose two
  coordinates are distinct and on the line, it returns a state whose two coordinates are
  again distinct and on the line, and whose gate index is
  \<open>clamp(round(gap / (vis_segments - 1) * (N - 1)), 0, N - 1)\<close> for the new gap, a valid index.
\<close>

theorem micro_move_keeps_line:
  "(grappling s \<longrightarrow> micro_move actor k s = Inr s) \<and>
   (\<not> grappling s \<and> (actor = user_id (a s) \<or> actor = user_id (b s)) \<and>
    0 \<le> range_idx s \<and> range_idx s \<le> int (length RANGE_ORDER) - 1 \<and>
    pos s (user_id (a s)) = Some pa \<and> pos s (user_id (b s)) = Some pb \<and> pa \<noteq> pb \<and>
    0 \<le> pa \<and> pa \<le> vis_segments s - 1 \<and> 0 \<le> pb \<and> pb \<le> vis_segments s - 1 \<longrightarrow>
    (\<exists>s' pa' pb'. micro_move actor k s = Inr s' \<and>
        a s' = a s \<and> b s' = b s \<and> vis_segments s' = vis_segments s \<and>
        pos s' (user_id (a s)) = Some pa' \<and> pos s' (user_id (b s)) = Some pb' \<and>
        pa' \<noteq> pb' \<and> 0 \<le> pa' \<and> pa' \<le> vis_segments s - 1 \<and>
        0 \<le> pb' \<and> pb' \<le> vis_segments s - 1 \<and>
        range_idx s' =
          iclamp (py_round (of_int \<bar>pb' - pa'\<bar> / of_int (vis_segments s - 1)
                            * of_int (int (length RANGE_ORDER) - 1)))
            0 (int (length RANGE_ORDER) - 1) \<and>
        0 \<le> range_idx s' \<and> range_idx s' \<le> int (length RANGE_ORDER) - 1))"
proof (intro conjI impI)
  assume "grappling s"
  then show "micro_move actor k s = Inr s" by (simp add: micro_move_idle)
next
  assume h: "\<not> grappling s \<and> (actor = user_id (a s) \<or> actor = user_id (b s)) \<and>
    0 \<le> range_idx s \<and> range_idx s \<le> int (length RANGE_ORDER) - 1 \<and>
    pos s (user_id (a s)) = Some pa \<and> pos s (user_id (b s)) = Some pb \<and> pa \<noteq> pb \<and>
    0 \<le> pa \<and> pa \<le> vis_segments s - 1 \<and> 0 \<le> pb \<and> pb \<le> vis_segments s - 1"
  then have i4: "range_idx s \<le> 4" by (simp add: RANGE_ORDER_def)
  from h have f: "actor = user_id (a s) \<or> actor = user_id (b s)" "\<not> grappling s"
    "0 \<le> range_idx s" "pos s (user_id (a s)) = Some pa" "pos s (user_id (b s)) = Some pb"
    "pa \<noteq> pb" "0 \<le> pa" "pa \<le> vis_segments s - 1" "0 \<le> pb" "pb \<le> vis_segments s - 1"
    by simp_all
  show "\<exists>s' pa' pb'. micro_move actor k s = Inr s' \<and>
        a s' = a s \<and> b s' = b s \<and> vis_segments s' = vis_segments s \<and>
        pos s' (user_id (a s)) = Some pa' \<and> pos s' (user_id (b s)) = Some pb' \<and>
        pa' \<noteq> pb' \<and> 0 \<le> pa' \<and> pa' \<le> vis_segments s - 1 \<and>
        0 \<le> pb' \<and> pb' \<le> vis_segments s - 1 \<and>
        range_idx s' =
          iclamp (py_round (of_int \<bar>pb' - pa'\<bar> / of_int (vis_segments s - 1)
                            * of_int (int (length RANGE_ORDER) - 1)))
            0 (int (length RANGE_ORDER) - 1) \<and>
        0 \<le> range_idx s' \<and> range_idx s' \<le> int (length RANGE_ORDER) - 1"
    by (rule micro_move_line [OF f(1) f(2) f(3) i4 f(4) f(5) f(6) f(7) f(8) f(9) f(10)])
qed

text \<open>
  Ann advances two steps from 6 towards Bob at 18: she stands at 8, the gap of 10 gives gate
  index 2. In the choke example the duel is grappling and nothing moves.
\<close>

theorem micro_move_keeps_line_witness:
  "\<not> grappling duel0 \<and> pos duel0 (user_id (a duel0)) = Some 6 \<and>
   pos duel0 (user_id (b duel0)) = Some 18 \<and>
   (\<exists>s'. micro_move 1 2 duel0 = Inr s' \<and> pos s' 1 = Some 8 \<and> pos s' 2 = Some 18 \<and>
      range_idx s' = 2 \<and> 0 \<le> range_idx s' \<and> range_idx s' \<le> int (length RANGE_ORDER) - 1) \<and>
   grappling choke_duel \<and> micro_move 1 2 choke_duel = Inr choke_duel"
proof -
  have h: "\<not> grappling duel0 \<and> (1 = user_id (a duel0) \<or> 1 = user_id (b duel0)) \<and>
    0 \<le> range_idx duel0 \<and> range_idx duel0 \<le> int (length RANGE_ORDER) - 1 \<and>
    pos duel0 (user_id (a duel0)) = Some 6 \<and> pos duel0 (user_id (b duel0)) = Some 18 \<and>
    (6::int) \<noteq> 18 \<and>
    (0::int) \<le> 6 \<and> 6 \<le> vis_segments duel0 - 1 \<and> (0::int) \<le> 18 \<and> 18 \<le> vis_segments duel0 - 1"
    by (simp add: RANGE_ORDER_def)
  from micro_move_keeps_line [of duel0 1 2 6 18] h
  obtain s' where s': "micro_move 1 2 duel0 = Inr s'"
    "0 \<le> range_idx s'" "range_idx s' \<le> int (length RANGE_ORDER) - 1"
    by blast
  from eval_micro_move_duel0 s' have v: "pos s' 1 = Some 8 \<and> pos s' 2 = Some 18 \<and> range_idx s' = 2"
    by simp
  have g: "grappling choke_duel" by simp
  from micro_move_keeps_line [of choke_duel 1 2] g
  have i: "micro_move 1 2 choke_duel = Inr choke_duel" by blast
  from h s' v g i show ?thesis by blast
qed




subsection \<open>Expiry of clearing stacks\<close>

lemma expire_one_frame [simp]:
  "turn_tick (expire_one uid s) = turn_tick s"
  "a (expire_one uid s) = a s"
  "b (expire_one uid s) = b s"
  by (simp_all add: expire_one_def Let_def)

lemma expire_one_expiries:
  "(case clearing_expiries (expire_one uid s) u of None \<Rightarrow> [] | Some e \<Rightarrow> e) =
     (if u = uid
      then filter (\<lambda>t. turn_tick s < t) (case clearing_expiries s uid of None \<Rightarrow> [] | Some e \<Rightarrow> e)
      else (case clearing_expiries s u of None \<Rightarrow> [] | Some e \<Rightarrow> e))"
  by (auto simp add: expire_one_def Let_def split: option.splits)

lemma expire_one_fixed:
  assumes "list_all (\<lambda>t. turn_tick s < t) (case clearing_expiries s uid of None \<Rightarrow> [] | Some e \<Rightarrow> e)"
  shows "expire_one uid s = s"
proof (cases "clearing_expiries s uid")
  case None
  then show ?thesis by (simp add: expire_one_def)
next
  case (Some e)
  with assms have all: "\<forall>t\<in>set e. turn_tick s < t" by (simp add: list_all_iff)
  then have f: "filter (\<lambda>t. turn_tick s < t) e = e" by simp
  have u: "(clearing_expiries s)(uid \<mapsto> e) = clearing_expiries s"
    using Some by (simp add: fun_upd_idem)
  show ?thesis
    by (cases "e = []") (simp_all add: expire_one_def Let_def Some f u)
qed

lemma expire_one_settles:
  "list_all (\<lambda>t. turn_tick s < t)
     (case clearing_expiries (expire_one uid s) uid of None \<Rightarrow> [] | Some e \<Rightarrow> e)"
  by (simp add: expire_one_expiries list_all_iff)

lemma expire_one_keeps_settled:
  assumes "list_all (\<lambda>t. turn_tick s < t) (case clearing_expiries s u of None \<Rightarrow> [] | Some e \<Rightarrow> e)"
  shows "list_all (\<lambda>t. turn_tick s < t)
           (case clearing_expiries (expire_one uid s) u of None \<Rightarrow> [] | Some e \<Rightarrow> e)"
  using assms by (simp add: expire_one_expiries list_all_iff)

lemma expired_count:
  "int (length e) - int (length (filter (\<lambda>t. tick < t) e)) =
     int (length (filter (\<lambda>t. t \<le> tick) e))" for tick :: int
proof -
  have "length e = length (filter (\<lambda>t. tick < t) e) + length (filter (\<lambda>t. \<not> tick < t) e)"
    by (rule sum_length_filter_compl [symmetric])
  moreover have "filter (\<lambda>t. \<not> tick < t) e = filter (\<lambda>t. t \<le> tick) e"
    by (rule filter_cong) auto
  ultimately show ?thesis by simp
qed

lemma expire_one_stacks:
  "(case clearing_stacks (expire_one uid s) uid of None \<Rightarrow> 0 | Some n \<Rightarrow> n) =
     (let n = int (length (filter (\<lambda>t. t \<le> turn_tick s)
                  (case clearing_expiries s uid of None \<Rightarrow> [] | Some e \<Rightarrow> e)))
      in if 0 < n then max 0 ((case clearing_stacks s uid of None \<Rightarrow> 0 | Some n \<Rightarrow> n) - n)
         else (case clearing_stacks s uid of None \<Rightarrow> 0 | Some n \<Rightarrow> n))"
proof (cases "clearing_expiries s uid")
  case None
  then show ?thesis by (simp add: expire_one_def)
next
  case (Some e)
  define k where "k = filter (\<lambda>t. turn_tick s < t) e"
  define n where "n = int (length (filter (\<lambda>t. t \<le> turn_tick s) e))"
  have len: "int (length e) - int (length k) = n"
    unfolding k_def n_def by (rule expired_count)
  have n0: "0 \<le> n" by (simp add: n_def)
  have ke: "k = [] \<Longrightarrow> e \<noteq> [] \<Longrightarrow> 0 < n" using len by (cases e) auto
  show ?thesis
  proof (cases "e = []")
    case True
    then show ?thesis by (simp add: expire_one_def Some)
  next
    case False
    then show ?thesis
      using len n0 ke
      by (auto simp add: expire_one_def Let_def Some k_def [symmetric] n_def [symmetric]
               split: option.splits)
  qed
qed

lemma expire_one_stacks_other:
  "u \<noteq> uid \<Longrightarrow> clearing_stacks (expire_one uid s) u = clearing_stacks s u"
  by (simp add: expire_one_def Let_def)

lemma expire_clearing_settled:
  "expire_clearing (expire_clearing s) = expire_clearing s \<and>
   list_all (\<lambda>t. turn_tick s < t) (expiries_get (expire_clearing s) (user_id (a s))) \<and>
   list_all (\<lambda>t. turn_tick s < t) (expiries_get (expire_clearing s) (user_id (b s)))"
proof -
  let ?s1 = "expire_one (user_id (a s)) s"
  let ?s2 = "expire_one (user_id (b s)) ?s1"
  have ec: "expire_clearing s = ?s2" by (simp add: expire_clearing_def)
  have "list_all (\<lambda>t. turn_tick ?s1 < t) (expiries_get ?s1 (user_id (a s)))"
    using expire_one_settles [of s "user_id (a s)"] by simp
  from expire_one_keeps_settled [OF this, of "user_id (b s)"]
  have sa: "list_all (\<lambda>t. turn_tick ?s2 < t) (expiries_get ?s2 (user_id (a ?s2)))"
    by simp
  have sb: "list_all (\<lambda>t. turn_tick ?s2 < t) (expiries_get ?s2 (user_id (b ?s2)))"
    using expire_one_settles [of ?s1 "user_id (b s)"] by simp
  have "expire_clearing ?s2 = expire_one (user_id (b ?s2)) (expire_one (user_id (a ?s2)) ?s2)"
    by (simp add: expire_clearing_def)
  also have "expire_one (user_id (a ?s2)) ?s2 = ?s2" by (rule expire_one_fixed [OF sa])
  also have "expire_one (user_id (b ?s2)) ?s2 = ?s2" by (rule expire_one_fixed [OF sb])
  finally have idem: "expire_clearing ?s2 = ?s2" .
  from idem sa sb show ?thesis by (simp add: ec)
qed

lemma expire_clearing_stacks_a:
  "stacks_get (expire_clearing s) (user_id (a s)) =
     (let n = int (length (filter (\<lambda>t. t \<le> turn_tick s) (expiries_get s (user_id (a s)))))
      in if 0 < n then max 0 (stacks_get s (user_id (a s)) - n)
         else stacks_get s (user_id (a s)))"
proof (cases "user_id (b s) = user_id (a s)")
  case True
  have "expire_one (user_id (a s)) (expire_one (user_id (a s)) s) = expire_one (user_id (a s)) s"
    using expire_one_fixed [of "expire_one (user_id (a s)) s" "user_id (a s)"]
      expire_one_settles [of s "user_id (a s)"] by simp
  then have "expire_clearing s = expire_one (user_id (a s)) s"
    by (simp add: expire_clearing_def True)
  then show ?thesis by (simp only: expire_one_stacks)
next
  case False
  then have "clearing_stacks (expire_clearing s) (user_id (a s)) =
      clearing_stacks (expire_one (user_id (a s)) s) (user_id (a s))"
    by (simp add: expire_clearing_def expire_one_stacks_other)
  then show ?thesis by (simp only: expire_one_stacks)
qed

lemma expire_clearing_stacks_b:
  "stacks_get (expire_clearing s) (user_id (b s)) =
     (let n = int (length (filter (\<lambda>t. t \<le> turn_tick s) (expiries_get s (user_id (b s)))))
      in if 0 < n then max 0 (stacks_get s (user_id (b s)) - n)
         else stacks_get s (user_id (b s)))"
proof (cases "user_id (b s) = user_id (a s)")
  case True
  then show ?thesis using expire_clearing_stacks_a [of s] by simp
next
  case False
  let ?s1 = "expire_one (user_id (a s)) s"
  have e: "expiries_get ?s1 (user_id (b s)) = expiries_get s (user_id (b s))"
    using False by (simp add: expire_one_expiries)
  have k: "clearing_stacks ?s1 (user_id (b s)) = clearing_stacks s (user_id (b s))"
    using False by (simp add: expire_one_stacks_other)
  have "stacks_get (expire_clearing s) (user_id (b s)) =
        stacks_get (expire_one (user_id (b s)) ?s1) (user_id (b s))"
    by (simp add: expire_clearing_def)
  also have "\<dots> =
     (let n = int (length (filter (\<lambda>t. t \<le> turn_tick ?s1) (expiries_get ?s1 (user_id (b s)))))
      in if 0 < n then max 0 (stacks_get ?s1 (user_id (b s)) - n)
         else stacks_get ?s1 (user_id (b s)))"
    by (rule expire_one_stacks)
  finally show ?thesis by (simp only: e k expire_one_frame)
qed

text \<open>
  C9. The expiry step is idempotent: a second pass at the same tick leaves the state of
  the first pass unchanged. After one pass every expiry entry left for either combatant
  lies after the current tick, and each combatant's stack count has gone down by the
  number of entries at or before the tick (floored at 0), once.
\<close>

theorem expire_clearing_idempotent:
  "expire_clearing (expire_clearing s) = expire_clearing s \<and>
   list_all (\<lambda>t. turn_tick s < t) (expiries_get (expire_clearing s) (user_id (a s))) \<and>
   list_all (\<lambda>t. turn_tick s < t) (expiries_get (expire_clearing s) (user_id (b s))) \<and>
   stacks_get (expire_clearing s) (user_id (a s)) =
     (let n = int (length (filter (\<lambda>t. t \<le> turn_tick s) (expiries_get s (user_id (a s)))))
      in if 0 < n then max 0 (stacks_get s (user_id (a s)) - n)
         else stacks_get s (user_id (a s))) \<and>
   stacks_get (expire_clearing s) (user_id (b s)) =
     (let n = int (length (filter (\<lambda>t. t \<le> turn_tick s) (expiries_get s (user_id (b s)))))
      in if 0 < n then max 0 (stacks_get s (user_id (b s)) - n)
         else stacks_get s (user_id (b s)))"
  using expire_clearing_settled [of s] expire_clearing_stacks_a [of s]
    expire_clearing_stacks_b [of s]
  by (intro conjI) (simp_all only:)

subsection \<open>End of turn\<close>

lemma apply_choke_tick_idle: "choking s = None \<Longrightarrow> apply_choke_tick nb nf s = s"
  by (simp add: apply_choke_tick_def)

lemma end_turn_plain:
  assumes "turn_id s = 0 \<or> turn_id s = 1" "user_id (other s) \<notin> skip_turn_for s"
  shows "end_turn nb nf s =
         expire_clearing (apply_choke_tick nb nf
           (s\<lparr>turn_id := 1 - turn_id s,
              round_no := (if turn_id s = 1 then round_no s + 1 else round_no s),
              turn_tick := turn_tick s + 1,
              grapple_flip := (if grappling s then grapple_flip s XOR 1 else grapple_flip s)\<rparr>))"
  using assms(1)
proof
  assume t: "turn_id s = 0"
  with assms(2) have k: "user_id (b s) \<notin> skip_turn_for s" by (simp add: other_def)
  show ?thesis
  proof (cases "grappling s")
    case True
    with t k show ?thesis by (simp add: end_turn_def Let_def current_def)
  next
    case False
    with t k show ?thesis by (simp add: end_turn_def Let_def current_def)
  qed
next
  assume t: "turn_id s = 1"
  with assms(2) have k: "user_id (a s) \<notin> skip_turn_for s" by (simp add: other_def)
  show ?thesis
  proof (cases "grappling s")
    case True
    with t k show ?thesis by (simp add: end_turn_def Let_def current_def)
  next
    case False
    with t k show ?thesis by (simp add: end_turn_def Let_def current_def)
  qed
qed

lemma end_turn_skipping:
  assumes "turn_id s = 0 \<or> turn_id s = 1" "user_id (other s) \<in> skip_turn_for s"
  shows "end_turn nb nf s =
         expire_clearing (apply_choke_tick nb nf
           (s\<lparr>round_no := round_no s + 1,
              turn_tick := turn_tick s + 2,
              grapple_flip := (if grappling s then grapple_flip s XOR 1 else grapple_flip s),
              skip_turn_for := skip_turn_for s - {user_id (other s)},
              full_log_lines := full_log_lines s @ [Raw (StaggeredLosesTurn (name (other s)))],
              log_lines := last6 (log_lines s @ [Raw (StaggeredLosesTurn (name (other s)))])\<rparr>))"
  using assms(1)
proof
  assume t: "turn_id s = 0"
  with assms(2) have k: "user_id (b s) \<in> skip_turn_for s" by (simp add: other_def)
  show ?thesis
  proof (cases "grappling s")
    case True
    with t k show ?thesis
      apply (simp add: end_turn_def Let_def current_def other_def add_raw_def)
      apply (intro arg_cong [where f = expire_clearing]
                   arg_cong [where f = "apply_choke_tick nb nf"] DuelState.equality)
      apply simp_all
      done
  next
    case False
    with t k show ?thesis
      apply (simp add: end_turn_def Let_def current_def other_def add_raw_def)
      apply (intro arg_cong [where f = expire_clearing]
                   arg_cong [where f = "apply_choke_tick nb nf"] DuelState.equality)
      apply simp_all
      done
  qed
next
  assume t: "turn_id s = 1"
  with assms(2) have k: "user_id (a s) \<in> skip_turn_for s" by (simp add: other_def)
  show ?thesis
  proof (cases "grappling s")
    case True
    with t k show ?thesis
      apply (simp add: end_turn_def Let_def current_def other_def add_raw_def)
      apply (intro arg_cong [where f = expire_clearing]
                   arg_cong [where f = "apply_choke_tick nb nf"] DuelState.equality)
      apply simp_all
      done
  next
    case False
    with t k show ?thesis
      apply (simp add: end_turn_def Let_def current_def other_def add_raw_def)
      apply (intro arg_cong [where f = expire_clearing]
                   arg_cong [where f = "apply_choke_tick nb nf"] DuelState.equality)
      apply simp_all
      done
  qed
qed

lemma expire_one_frame_more [simp]:
  "turn_id (expire_one uid s) = turn_id s"
  "round_no (expire_one uid s) = round_no s"
  "grapple_flip (expire_one uid s) = grapple_flip s"
  "skip_turn_for (expire_one uid s) = skip_turn_for s"
  "full_log_lines (expire_one uid s) = full_log_lines s"
  "log_lines (expire_one uid s) = log_lines s"
  "unconscious (expire_one uid s) = unconscious s"
  "breath (expire_one uid s) = breath s"
  "bloodflow (expire_one uid s) = bloodflow s"
  "last_hit (expire_one uid s) = last_hit s"
  "choking (expire_one uid s) = choking s"
  "grappling (expire_one uid s) = grappling s"
  "grenades_pending (expire_one uid s) = grenades_pending s"
  "active (expire_one uid s) = active s"
  "range_idx (expire_one uid s) = range_idx s"
  "finisher (expire_one uid s) = finisher s"
  by (simp_all add: expire_one_def Let_def)

lemma expire_clearing_frame [simp]:
  "turn_id (expire_clearing s) = turn_id s"
  "round_no (expire_clearing s) = round_no s"
  "turn_tick (expire_clearing s) = turn_tick s"
  "grapple_flip (expire_clearing s) = grapple_flip s"
  "skip_turn_for (expire_clearing s) = skip_turn_for s"
  "full_log_lines (expire_clearing s) = full_log_lines s"
  "log_lines (expire_clearing s) = log_lines s"
  "a (expire_clearing s) = a s"
  "b (expire_clearing s) = b s"
  "unconscious (expire_clearing s) = unconscious s"
  "breath (expire_clearing s) = breath s"
  "bloodflow (expire_clearing s) = bloodflow s"
  "last_hit (expire_clearing s) = last_hit s"
  "choking (expire_clearing s) = choking s"
  "grappling (expire_clearing s) = grappling s"
  "grenades_pending (expire_clearing s) = grenades_pending s"
  "active (expire_clearing s) = active s"
  "range_idx (expire_clearing s) = range_idx s"
  "finisher (expire_clearing s) = finisher s"
  by (simp_all add: expire_clearing_def)

lemma stagger_duel_fields [simp]:
  "turn_id stagger_duel = 0" "a stagger_duel = Ann" "b stagger_duel = Bob"
  "skip_turn_for stagger_duel = {2}" "choking stagger_duel = None"
  "round_no stagger_duel = 1" "turn_tick stagger_duel = 0" "full_log_lines stagger_duel = []"
  "grappling stagger_duel = False"
  by (simp_all add: stagger_duel_def)

text \<open>
  C7. For a turn owner index of 0 or 1, \<open>end_turn\<close> is the expiry step applied to the
  choke tick applied to a state \<open>m\<close> that differs from the state before as follows. If
  the combatant who would act next is not flagged to skip: the owner index is flipped, the
  round number is one higher exactly when the owner returns to combatant 0, the tick
  counter is one higher, and the grapple flip bit is flipped exactly when grappling. If
  that combatant is flagged: the flag is removed, the lost turn is logged, the owner index
  is back at the previous owner, the round number is one higher and the tick counter two
  higher, and the grapple flip bit is flipped once exactly when grappling. With no choke
  active the choke tick changes nothing.
\<close>

theorem end_turn_sequence:
  "turn_id s = 0 \<or> turn_id s = 1 \<longrightarrow>
   (let flip = (if grappling s then grapple_flip s XOR 1 else grapple_flip s);
        lost = Raw (StaggeredLosesTurn (name (other s)));
        m = (if user_id (other s) \<in> skip_turn_for s
             then s\<lparr>round_no := round_no s + 1,
                    turn_tick := turn_tick s + 2,
                    grapple_flip := flip,
                    skip_turn_for := skip_turn_for s - {user_id (other s)},
                    full_log_lines := full_log_lines s @ [lost],
                    log_lines := last6 (log_lines s @ [lost])\<rparr>
             else s\<lparr>turn_id := 1 - turn_id s,
                    round_no := (if turn_id s = 1 then round_no s + 1 else round_no s),
                    turn_tick := turn_tick s + 1,
                    grapple_flip := flip\<rparr>)
    in end_turn nb nf s = expire_clearing (apply_choke_tick nb nf m) \<and>
       (choking s = None \<longrightarrow> end_turn nb nf s = expire_clearing m))"
proof
  assume t: "turn_id s = 0 \<or> turn_id s = 1"
  show "let flip = (if grappling s then grapple_flip s XOR 1 else grapple_flip s);
        lost = Raw (StaggeredLosesTurn (name (other s)));
        m = (if user_id (other s) \<in> skip_turn_for s
             then s\<lparr>round_no := round_no s + 1,
                    turn_tick := turn_tick s + 2,
                    grapple_flip := flip,
                    skip_turn_for := skip_turn_for s - {user_id (other s)},
                    full_log_lines := full_log_lines s @ [lost],
                    log_lines := last6 (log_lines s @ [lost])\<rparr>
             else s\<lparr>turn_id := 1 - turn_id s,
                    round_no := (if turn_id s = 1 then round_no s + 1 else round_no s),
                    turn_tick := turn_tick s + 1,
                    grapple_flip := flip\<rparr>)
    in end_turn nb nf s = expire_clearing (apply_choke_tick nb nf m) \<and>
       (choking s = None \<longrightarrow> end_turn nb nf s = expire_clearing m)"
  proof (cases "user_id (other s) \<in> skip_turn_for s")
    case True
    with t show ?thesis
      unfolding Let_def by (simp add: end_turn_skipping apply_choke_tick_idle)
  next
    case False
    with t show ?thesis
      unfolding Let_def by (simp add: end_turn_plain apply_choke_tick_idle)
  qed
qed

theorem end_turn_sequence_witness:
  "(turn_id stagger_duel = 0 \<or> turn_id stagger_duel = 1) \<and>
   user_id (other stagger_duel) \<in> skip_turn_for stagger_duel \<and>
   turn_id (end_turn 0 0 stagger_duel) = 0 \<and> round_no (end_turn 0 0 stagger_duel) = 2 \<and>
   turn_tick (end_turn 0 0 stagger_duel) = 2 \<and> skip_turn_for (end_turn 0 0 stagger_duel) = {} \<and>
   full_log_lines (end_turn 0 0 stagger_duel) = [Raw (StaggeredLosesTurn ''Bob'')]"
  using end_turn_sequence [of stagger_duel 0 0]
  by (simp add: Let_def other_def apply_choke_tick_idle)

subsection \<open>Choke\<close>

lemma randint_range: "lo \<le> hi \<Longrightarrow> lo \<le> randint lo hi n \<and> randint lo hi n \<le> hi"
proof -
  assume "lo \<le> hi"
  then have p: "0 < hi - lo + 1" by simp
  have "0 \<le> int n mod (hi - lo + 1)" using p by simp
  moreover have "int n mod (hi - lo + 1) < hi - lo + 1" using p by (rule pos_mod_bound)
  ultimately show ?thesis by (simp add: randint_def)
qed

lemma apply_choke_tick_meters:
  assumes "choking s = Some (choker, target)"
  shows "breath (apply_choke_tick nb nf s) target =
           Some (iclamp ((case breath s target of None \<Rightarrow> 50 | Some v \<Rightarrow> v) - randint 6 10 nb) 0 100)"
    and "bloodflow (apply_choke_tick nb nf s) target =
           Some (iclamp ((case bloodflow s target of None \<Rightarrow> 50 | Some v \<Rightarrow> v) - randint 3 7 nf) 0 100)"
    and "a (apply_choke_tick nb nf s) = a s"
    and "b (apply_choke_tick nb nf s) = b s"
  using assms by (simp_all add: apply_choke_tick_def Let_def add_raw_def)

lemma apply_choke_tick_out:
  assumes "choking s = Some (choker, target)"
    and "iclamp ((case breath s target of None \<Rightarrow> 50 | Some v \<Rightarrow> v) - randint 6 10 nb) 0 100 \<le> 0 \<or>
         iclamp ((case bloodflow s target of None \<Rightarrow> 50 | Some v \<Rightarrow> v) - randint 3 7 nf) 0 100 \<le> 0"
  shows "target \<in> unconscious (apply_choke_tick nb nf s)"
    and "last_hit (apply_choke_tick nb nf s) target =
           Some \<lparr>by_id = choker, hit_type = ''strangled'', weapon = ''''\<rparr>"
  using assms by (simp_all add: apply_choke_tick_def Let_def add_raw_def)

lemma apply_choke_tick_awake:
  assumes "choking s = Some (choker, target)"
    and "\<not> (iclamp ((case breath s target of None \<Rightarrow> 50 | Some v \<Rightarrow> v) - randint 6 10 nb) 0 100 \<le> 0 \<or>
         iclamp ((case bloodflow s target of None \<Rightarrow> 50 | Some v \<Rightarrow> v) - randint 3 7 nf) 0 100 \<le> 0)"
  shows "unconscious (apply_choke_tick nb nf s) = unconscious s"
    and "last_hit (apply_choke_tick nb nf s) = last_hit s"
  using assms by (simp_all add: apply_choke_tick_def Let_def add_raw_def)

lemma squeeze_meters:
  shows "breath (squeeze line nb nf choker target s) target =
           Some (iclamp ((case breath s target of None \<Rightarrow> 50 | Some v \<Rightarrow> v) - randint 8 12 nb) 0 100)"
    and "bloodflow (squeeze line nb nf choker target s) target =
           Some (iclamp ((case bloodflow s target of None \<Rightarrow> 50 | Some v \<Rightarrow> v) - randint 4 8 nf) 0 100)"
    and "a (squeeze line nb nf choker target s) = a s"
    and "b (squeeze line nb nf choker target s) = b s"
  by (simp_all add: squeeze_def Let_def add_raw_def push_def record_hit_def split: option.split)

lemma squeeze_out:
  assumes "iclamp ((case breath s target of None \<Rightarrow> 50 | Some v \<Rightarrow> v) - randint 8 12 nb) 0 100 \<le> 0 \<or>
         iclamp ((case bloodflow s target of None \<Rightarrow> 50 | Some v \<Rightarrow> v) - randint 4 8 nf) 0 100 \<le> 0"
  shows "target \<in> unconscious (squeeze line nb nf choker target s)"
    and "last_hit (squeeze line nb nf choker target s) target =
           Some \<lparr>by_id = choker, hit_type = ''strangled'', weapon = ''''\<rparr>"
  using assms
  by (simp_all add: squeeze_def Let_def add_raw_def push_def record_hit_def split: option.split)

lemma squeeze_awake:
  assumes "\<not> (iclamp ((case breath s target of None \<Rightarrow> 50 | Some v \<Rightarrow> v) - randint 8 12 nb) 0 100 \<le> 0 \<or>
         iclamp ((case bloodflow s target of None \<Rightarrow> 50 | Some v \<Rightarrow> v) - randint 4 8 nf) 0 100 \<le> 0)"
  shows "unconscious (squeeze line nb nf choker target s) = unconscious s"
    and "last_hit (squeeze line nb nf choker target s) = last_hit s"
  using assms
  by (simp_all add: squeeze_def Let_def add_raw_def push_def record_hit_def)


lemma squeeze_low_breath:
  assumes "breath s target = Some 5"
  shows "iclamp (breath_get s target - randint 8 12 nb) 0 100 = 0"
  using assms randint_range [of 8 12 nb] by (simp add: iclamp_def)

text \<open>
  C6. One squeeze lowers the target's breath by a draw between 8 and 12 and the blood flow
  by a draw between 4 and 8; the tick at the end of a turn, applied while a choke is
  active, lowers them by draws between 6 and 10 and between 3 and 7. Both meters are
  clamped to 0..100. When either meter is at 0 afterwards the target is in the
  unconscious set and the last hit on the target is recorded as \<open>strangled\<close> by the choker;
  otherwise neither changes. Both combatant records, and so their hit points, are
  unchanged. With breath 5 and blood flow 50 every squeeze draw is at least 5 and the
  target passes out.
\<close>

theorem choke_tick_ranges:
  "(let db = randint 8 12 nb; df = randint 4 8 nf;
        br = iclamp (breath_get s target - db) 0 100;
        fl = iclamp (bloodflow_get s target - df) 0 100;
        s' = squeeze line nb nf choker target s
    in 8 \<le> db \<and> db \<le> 12 \<and> 4 \<le> df \<and> df \<le> 8 \<and>
       0 \<le> br \<and> br \<le> 100 \<and> 0 \<le> fl \<and> fl \<le> 100 \<and>
       breath s' target = Some br \<and> bloodflow s' target = Some fl \<and>
       a s' = a s \<and> b s' = b s \<and>
       (br \<le> 0 \<or> fl \<le> 0 \<longrightarrow>
          target \<in> unconscious s' \<and>
          last_hit s' target = Some \<lparr>by_id = choker, hit_type = ''strangled'', weapon = ''''\<rparr>) \<and>
       (0 < br \<and> 0 < fl \<longrightarrow> unconscious s' = unconscious s \<and> last_hit s' = last_hit s) \<and>
       (breath s target = Some 5 \<and> bloodflow s target = Some 50 \<longrightarrow>
          5 \<le> db \<and> target \<in> unconscious s' \<and> hp (a s') = hp (a s) \<and> hp (b s') = hp (b s))) \<and>
   (choking s = Some (choker, target) \<longrightarrow>
    (let db = randint 6 10 nb; df = randint 3 7 nf;
         br = iclamp (breath_get s target - db) 0 100;
         fl = iclamp (bloodflow_get s target - df) 0 100;
         s' = apply_choke_tick nb nf s
     in 6 \<le> db \<and> db \<le> 10 \<and> 3 \<le> df \<and> df \<le> 7 \<and>
        0 \<le> br \<and> br \<le> 100 \<and> 0 \<le> fl \<and> fl \<le> 100 \<and>
        breath s' target = Some br \<and> bloodflow s' target = Some fl \<and>
        a s' = a s \<and> b s' = b s \<and>
        (br \<le> 0 \<or> fl \<le> 0 \<longrightarrow>
           target \<in> unconscious s' \<and>
           last_hit s' target = Some \<lparr>by_id = choker, hit_type = ''strangled'', weapon = ''''\<rparr>) \<and>
        (0 < br \<and> 0 < fl \<longrightarrow> unconscious s' = unconscious s \<and> last_hit s' = last_hit s)))"
proof (rule conjI)
  show "let db = randint 8 12 nb; df = randint 4 8 nf;
        br = iclamp (breath_get s target - db) 0 100;
        fl = iclamp (bloodflow_get s target - df) 0 100;
        s' = squeeze line nb nf choker target s
    in 8 \<le> db \<and> db \<le> 12 \<and> 4 \<le> df \<and> df \<le> 8 \<and>
       0 \<le> br \<and> br \<le> 100 \<and> 0 \<le> fl \<and> fl \<le> 100 \<and>
       breath s' target = Some br \<and> bloodflow s' target = Some fl \<and>
       a s' = a s \<and> b s' = b s \<and>
       (br \<le> 0 \<or> fl \<le> 0 \<longrightarrow>
          target \<in> unconscious s' \<and>
          last_hit s' target = Some \<lparr>by_id = choker, hit_type = ''strangled'', weapon = ''''\<rparr>) \<and>
       (0 < br \<and> 0 < fl \<longrightarrow> unconscious s' = unconscious s \<and> last_hit s' = last_hit s) \<and>
       (breath s target = Some 5 \<and> bloodflow s target = Some 50 \<longrightarrow>
          5 \<le> db \<and> target \<in> unconscious s' \<and> hp (a s') = hp (a s) \<and> hp (b s') = hp (b s))"
    unfolding Let_def
  proof (intro conjI impI)
    assume "0 < iclamp (breath_get s target - randint 8 12 nb) 0 100 \<and>
            0 < iclamp (bloodflow_get s target - randint 4 8 nf) 0 100"
    then have n: "\<not> (iclamp (breath_get s target - randint 8 12 nb) 0 100 \<le> 0 \<or>
            iclamp (bloodflow_get s target - randint 4 8 nf) 0 100 \<le> 0)" by simp
    from squeeze_awake [OF n]
    show "unconscious (squeeze line nb nf choker target s) = unconscious s"
      and "last_hit (squeeze line nb nf choker target s) = last_hit s" by simp_all
  next
    assume h: "breath s target = Some 5 \<and> bloodflow s target = Some 50"
    then have "breath s target = Some 5" by simp
    then have "iclamp (breath_get s target - randint 8 12 nb) 0 100 = 0"
      by (rule squeeze_low_breath)
    then have "iclamp (breath_get s target - randint 8 12 nb) 0 100 \<le> 0 \<or>
            iclamp (bloodflow_get s target - randint 4 8 nf) 0 100 \<le> 0" by simp
    then show "target \<in> unconscious (squeeze line nb nf choker target s)"
      by (rule squeeze_out)
    show "5 \<le> randint 8 12 nb" using randint_range [of 8 12 nb] by simp
  qed (use randint_range [of 8 12 nb] randint_range [of 4 8 nf]
           iclamp_range [of 0 100 "breath_get s target - randint 8 12 nb"]
           iclamp_range [of 0 100 "bloodflow_get s target - randint 4 8 nf"]
       in \<open>simp_all add: squeeze_meters squeeze_out\<close>)
next
  show "choking s = Some (choker, target) \<longrightarrow>
    (let db = randint 6 10 nb; df = randint 3 7 nf;
         br = iclamp (breath_get s target - db) 0 100;
         fl = iclamp (bloodflow_get s target - df) 0 100;
         s' = apply_choke_tick nb nf s
     in 6 \<le> db \<and> db \<le> 10 \<and> 3 \<le> df \<and> df \<le> 7 \<and>
        0 \<le> br \<and> br \<le> 100 \<and> 0 \<le> fl \<and> fl \<le> 100 \<and>
        breath s' target = Some br \<and> bloodflow s' target = Some fl \<and>
        a s' = a s \<and> b s' = b s \<and>
        (br \<le> 0 \<or> fl \<le> 0 \<longrightarrow>
           target \<in> unconscious s' \<and>
           last_hit s' target = Some \<lparr>by_id = choker, hit_type = ''strangled'', weapon = ''''\<rparr>) \<and>
        (0 < br \<and> 0 < fl \<longrightarrow> unconscious s' = unconscious s \<and> last_hit s' = last_hit s))"
    unfolding Let_def
  proof (intro conjI impI)
    assume c: "choking s = Some (choker, target)"
    assume "0 < iclamp (breath_get s target - randint 6 10 nb) 0 100 \<and>
            0 < iclamp (bloodflow_get s target - randint 3 7 nf) 0 100"
    then have n: "\<not> (iclamp (breath_get s target - randint 6 10 nb) 0 100 \<le> 0 \<or>
            iclamp (bloodflow_get s target - randint 3 7 nf) 0 100 \<le> 0)" by simp
    from apply_choke_tick_awake [OF c n]
    show "unconscious (apply_choke_tick nb nf s) = unconscious s"
      and "last_hit (apply_choke_tick nb nf s) = last_hit s" by simp_all
  qed (use randint_range [of 6 10 nb] randint_range [of 3 7 nf]
           iclamp_range [of 0 100 "breath_get s target - randint 6 10 nb"]
           iclamp_range [of 0 100 "bloodflow_get s target - randint 3 7 nf"]
       in \<open>simp_all add: apply_choke_tick_meters apply_choke_tick_out\<close>)
qed

theorem choke_tick_ranges_witness:
  "choking choke_duel = Some (1, 2) \<and> breath choke_duel 2 = Some 5 \<and>
   bloodflow choke_duel 2 = Some 50 \<and>
   2 \<in> unconscious (squeeze (TightensChoke ''Ann'') 0 0 1 2 choke_duel) \<and>
   hp (b (squeeze (TightensChoke ''Ann'') 0 0 1 2 choke_duel)) = 100 \<and>
   breath (squeeze (TightensChoke ''Ann'') 0 0 1 2 choke_duel) 2 = Some 0 \<and>
   bloodflow (squeeze (TightensChoke ''Ann'') 0 0 1 2 choke_duel) 2 = Some 46 \<and>
   2 \<in> unconscious (apply_choke_tick 0 0 choke_duel) \<and>
   bloodflow (apply_choke_tick 0 0 choke_duel) 2 = Some 47 \<and>
   hp (b (apply_choke_tick 0 0 choke_duel)) = 100"
  using choke_tick_ranges [of 0 0 choke_duel 2 "TightensChoke ''Ann''" 1]
  by (simp add: Let_def randint_def iclamp_def)


end
